theory Spec2Isabelle
  imports Complex_Main "HOL-Library.AList"
begin

section \<open>Python strings and integers\<close>

text \<open>
  A Python \<^verbatim>\<open>str\<close> is modelled as a \<^typ>\<open>string\<close> whose characters are the code points
  below U+0100, one \<^typ>\<open>char\<close> each; texts with characters beyond U+00FF are outside the
  model. On these characters \<^verbatim>\<open>str.lower\<close> and the classes \<^verbatim>\<open>\d\<close>, \<^verbatim>\<open>\w\<close> and
  \<^verbatim>\<open>\s\<close> of \<^verbatim>\<open>re\<close> on \<^verbatim>\<open>str\<close> patterns are as follows. The only decimal digits
  are 0 to 9; the word characters beyond the ASCII ones are the letters and the numeric
  characters of the upper half; the white space includes U+001C to U+001F, U+0085 and U+00A0.
\<close>

definition lower_char :: "char \<Rightarrow> char" where
  "lower_char c =
     (case map_of
             (zip (''ABCDEFGHIJKLMNOPQRSTUVWXYZ''
                   @ [CHR 0xC0, CHR 0xC1, CHR 0xC2, CHR 0xC3, CHR 0xC4, CHR 0xC5, CHR 0xC6,
                      CHR 0xC7, CHR 0xC8, CHR 0xC9, CHR 0xCA, CHR 0xCB, CHR 0xCC, CHR 0xCD,
                      CHR 0xCE, CHR 0xCF, CHR 0xD0, CHR 0xD1, CHR 0xD2, CHR 0xD3, CHR 0xD4,
                      CHR 0xD5, CHR 0xD6, CHR 0xD8, CHR 0xD9, CHR 0xDA, CHR 0xDB, CHR 0xDC,
                      CHR 0xDD, CHR 0xDE])
                  (''abcdefghijklmnopqrstuvwxyz''
                   @ [CHR 0xE0, CHR 0xE1, CHR 0xE2, CHR 0xE3, CHR 0xE4, CHR 0xE5, CHR 0xE6,
                      CHR 0xE7, CHR 0xE8, CHR 0xE9, CHR 0xEA, CHR 0xEB, CHR 0xEC, CHR 0xED,
                      CHR 0xEE, CHR 0xEF, CHR 0xF0, CHR 0xF1, CHR 0xF2, CHR 0xF3, CHR 0xF4,
                      CHR 0xF5, CHR 0xF6, CHR 0xF8, CHR 0xF9, CHR 0xFA, CHR 0xFB, CHR 0xFC,
                      CHR 0xFD, CHR 0xFE])) c of
        Some l \<Rightarrow> l
      | None \<Rightarrow> c)"

definition lower :: "string \<Rightarrow> string" where
  "lower s = map lower_char s"

definition is_digit :: "char \<Rightarrow> bool" where
  "is_digit c = (c \<in> set ''0123456789'')"

definition is_word_char :: "char \<Rightarrow> bool" where
  "is_word_char c =
     (c \<in> set (''abcdefghijklmnopqrstuvwxyzABCDEFGHIJKLMNOPQRSTUVWXYZ0123456789_''
               @ [CHR 0xAA, CHR 0xB2, CHR 0xB3, CHR 0xB5, CHR 0xB9, CHR 0xBA, CHR 0xBC,
                  CHR 0xBD, CHR 0xBE, CHR 0xC0, CHR 0xC1, CHR 0xC2, CHR 0xC3, CHR 0xC4,
                  CHR 0xC5, CHR 0xC6, CHR 0xC7, CHR 0xC8, CHR 0xC9, CHR 0xCA, CHR 0xCB,
                  CHR 0xCC, CHR 0xCD, CHR 0xCE, CHR 0xCF, CHR 0xD0, CHR 0xD1, CHR 0xD2,
                  CHR 0xD3, CHR 0xD4, CHR 0xD5, CHR 0xD6, CHR 0xD8, CHR 0xD9, CHR 0xDA,
                  CHR 0xDB, CHR 0xDC, CHR 0xDD, CHR 0xDE, CHR 0xDF, CHR 0xE0, CHR 0xE1,
                  CHR 0xE2, CHR 0xE3, CHR 0xE4, CHR 0xE5, CHR 0xE6, CHR 0xE7, CHR 0xE8,
                  CHR 0xE9, CHR 0xEA, CHR 0xEB, CHR 0xEC, CHR 0xED, CHR 0xEE, CHR 0xEF,
                  CHR 0xF0, CHR 0xF1, CHR 0xF2, CHR 0xF3, CHR 0xF4, CHR 0xF5, CHR 0xF6,
                  CHR 0xF8, CHR 0xF9, CHR 0xFA, CHR 0xFB, CHR 0xFC, CHR 0xFD, CHR 0xFE,
                  CHR 0xFF]))"

definition is_space :: "char \<Rightarrow> bool" where
  "is_space c =
     (c \<in> set [CHR 0x09, CHR 0x0A, CHR 0x0B, CHR 0x0C, CHR 0x0D,
                CHR 0x1C, CHR 0x1D, CHR 0x1E, CHR 0x1F, CHR 0x20, CHR 0x85, CHR 0xA0])"

text \<open>\<^verbatim>\<open>s.startswith(p)\<close> and the substring test \<^verbatim>\<open>p in s\<close>.\<close>

fun starts_with :: "string \<Rightarrow> string \<Rightarrow> bool" where
  "starts_with s [] = True"
| "starts_with [] (p # ps) = False"
| "starts_with (c # cs) (p # ps) = (c = p \<and> starts_with cs ps)"

fun contains :: "string \<Rightarrow> string \<Rightarrow> bool" where
  "contains [] p = (p = [])"
| "contains (c # cs) p = (starts_with (c # cs) p \<or> contains cs p)"

text \<open>\<^verbatim>\<open>any(keyword in s for keyword in keywords)\<close>.\<close>

definition any_in :: "string list \<Rightarrow> string \<Rightarrow> bool" where
  "any_in keywords s = list_ex (contains s) keywords"

text \<open>\<^verbatim>\<open>str(n)\<close> for an integer, and the value of a string of decimal digits.\<close>

definition digit_char :: "nat \<Rightarrow> char" where
  "digit_char d = ''0123456789'' ! (d mod 10)"

fun str_nat :: "nat \<Rightarrow> string" where
  "str_nat n = (if n < 10 then [digit_char n] else str_nat (n div 10) @ [digit_char (n mod 10)])"

declare str_nat.simps [simp del]

definition str_int :: "int \<Rightarrow> string" where
  "str_int i = (if i < 0 then CHR ''-'' # str_nat (nat (- i)) else str_nat (nat i))"

definition digit_val :: "char \<Rightarrow> nat" where
  "digit_val c = (case map_of (zip ''0123456789'' [0, 1, 2, 3, 4, 5, 6, 7, 8, 9]) c of
                    Some d \<Rightarrow> d
                  | None \<Rightarrow> 0)"

definition nat_of_digits :: "string \<Rightarrow> nat" where
  "nat_of_digits ds = foldl (\<lambda>acc c. 10 * acc + digit_val c) 0 ds"

definition int_of_digits :: "string \<Rightarrow> int" where
  "int_of_digits ds = foldl (\<lambda>acc c. 10 * acc + int (digit_val c)) 0 ds"

text \<open>Truthiness of an optional string and of an optional integer (\<^verbatim>\<open>if x:\<close>).\<close>

fun truthy_str :: "string option \<Rightarrow> bool" where
  "truthy_str None = False"
| "truthy_str (Some s) = (s \<noteq> [])"

fun truthy_int :: "int option \<Rightarrow> bool" where
  "truthy_int None = False"
| "truthy_int (Some i) = (i \<noteq> 0)"

text \<open>\<^verbatim>\<open>xs[0] if xs else None\<close>.\<close>

fun first_or_none :: "'a list \<Rightarrow> 'a option" where
  "first_or_none [] = None"
| "first_or_none (x # xs) = Some x"

section \<open>Query decomposer (query\_decomposer.py)\<close>

datatype QueryType = SIMPLE_DIRECT | COMPARATIVE | CROSS_COMPANY | TEMPORAL | CALCULATION

fun query_type_value :: "QueryType \<Rightarrow> string" where
  "query_type_value SIMPLE_DIRECT = ''simple_direct''"
| "query_type_value COMPARATIVE = ''comparative''"
| "query_type_value CROSS_COMPANY = ''cross_company''"
| "query_type_value TEMPORAL = ''temporal''"
| "query_type_value CALCULATION = ''calculation''"

record SubQuery =
  sq_text :: string
  sq_query_type :: QueryType
  sq_company :: "string option"
  sq_year :: "int option"
  sq_metric :: "string option"
  sq_section_hint :: "string option"

record DecomposedQuery =
  original_query :: string
  dq_query_type :: QueryType
  sub_queries :: "SubQuery list"
  requires_calculation :: bool
  calculation_type :: "string option"

text \<open>The tables of \<^verbatim>\<open>QueryDecomposer.__init__\<close>, in dictionary insertion order.\<close>

definition company_mappings :: "(string \<times> string) list" where
  "company_mappings =
     [(''google'', ''GOOGL''), (''alphabet'', ''GOOGL''), (''microsoft'', ''MSFT''),
      (''nvidia'', ''NVDA''), (''googl'', ''GOOGL''), (''msft'', ''MSFT''),
      (''nvda'', ''NVDA'')]"

definition financial_metrics :: "(string \<times> string list) list" where
  "financial_metrics =
     [(''revenue'', [''revenue'', ''sales'', ''total revenue'', ''net sales'']),
      (''profit'', [''profit'', ''net income'', ''earnings'', ''net profit'']),
      (''operating_income'', [''operating income'', ''operating profit'', ''operating earnings'']),
      (''operating_margin'', [''operating margin'', ''operating profit margin'']),
      (''gross_margin'', [''gross margin'', ''gross profit margin'']),
      (''cash'', [''cash'', ''cash and equivalents'', ''cash position'']),
      (''debt'', [''debt'', ''total debt'', ''long-term debt'']),
      (''assets'', [''assets'', ''total assets'']),
      (''equity'', [''equity'', ''shareholders equity'', ''stockholders equity'']),
      (''eps'', [''earnings per share'', ''eps'']),
      (''data_center_revenue'',
         [''data center revenue'', ''datacenter revenue'', ''data center sales''])]"

definition temporal_keywords :: "(string \<times> string list) list" where
  "temporal_keywords =
     [(''growth'', [''growth'', ''grew'', ''increase'', ''increased'', ''change'']),
      (''decline'', [''decline'', ''decreased'', ''drop'', ''fell'']),
      (''comparison'', [''compare'', ''comparison'', ''versus'', ''vs'', ''compared to''])]"

definition comparison_keywords :: "string list" where
  "comparison_keywords =
     [''highest'', ''lowest'', ''best'', ''worst'', ''most'', ''least'',
      ''greater'', ''better'', ''which company'', ''who had'']"

definition extract_companies :: "string \<Rightarrow> string list" where
  "extract_companies query =
     (let query_lower = lower query in
      fold (\<lambda>(name, ticker) companies.
              if contains query_lower name
              then (if ticker \<notin> set companies then companies @ [ticker] else companies)
              else companies)
           company_mappings [])"

text \<open>
  \<^verbatim>\<open>re.findall(r'\b(20\d{2})\b', query)\<close>: the scan carries whether the position is
  preceded by a non-word character (or is the start of the text); a match needs a non-word
  character (or the end) after its four digits, and the scan resumes behind the match.
\<close>

fun findall_years :: "bool \<Rightarrow> string \<Rightarrow> string list" where
  "findall_years b (c1 # c2 # c3 # c4 # rest) =
     (if b \<and> c1 = CHR ''2'' \<and> c2 = CHR ''0'' \<and> is_digit c3 \<and> is_digit c4
           \<and> (case rest of [] \<Rightarrow> True | c5 # _ \<Rightarrow> \<not> is_word_char c5)
      then [c1, c2, c3, c4] # findall_years False rest
      else findall_years (\<not> is_word_char c1) (c2 # c3 # c4 # rest))"
| "findall_years b cs = []"

text \<open>
  \<^verbatim>\<open>list(set(years))\<close>. CPython stores a small integer in the slot given by its value
  modulo the table size, 8 slots up to four elements and 32 slots from the fifth on, and
  iterates in slot order. The years that reach this point lie in 2020..2025, whose slots
  never collide, so the resulting order is the order of the slots.
\<close>

definition list_set :: "int list \<Rightarrow> int list" where
  "list_set ys =
     (let d = remdups ys;
          table_size = (if length d < 5 then 8 else 32)
      in sort_key (\<lambda>y. y mod table_size) d)"

definition extract_years :: "string \<Rightarrow> int list" where
  "extract_years query =
     (let year_matches = findall_years True query;
          years = filter (\<lambda>year. 2020 \<le> year \<and> year \<le> 2025)
                    (map (\<lambda>year_str. int (nat_of_digits year_str)) year_matches)
      in list_set years)"

definition extract_metrics :: "string \<Rightarrow> string list" where
  "extract_metrics query =
     (let query_lower = lower query in
      fold (\<lambda>(metric_key, metric_variants) metrics.
              if list_ex (contains query_lower) metric_variants
              then (if metric_key \<notin> set metrics then metrics @ [metric_key] else metrics)
              else metrics)
           financial_metrics [])"

definition classify_query_type :: "string \<Rightarrow> string list \<Rightarrow> int list \<Rightarrow> QueryType" where
  "classify_query_type query companies years =
     (let query_lower = lower query in
      if length companies > 1 \<or> any_in comparison_keywords query_lower then CROSS_COMPANY
      else if length years > 1 \<or> any_in (concat (map snd temporal_keywords)) query_lower
        then COMPARATIVE
      else if any_in [''calculate'', ''compute'', ''growth rate'', ''percentage''] query_lower
        then CALCULATION
      else SIMPLE_DIRECT)"

definition decompose_simple_query ::
  "string \<Rightarrow> string list \<Rightarrow> int list \<Rightarrow> string list \<Rightarrow> SubQuery list" where
  "decompose_simple_query query companies years metrics =
     [\<lparr>sq_text = query, sq_query_type = SIMPLE_DIRECT,
       sq_company = first_or_none companies, sq_year = first_or_none years,
       sq_metric = first_or_none metrics, sq_section_hint = None\<rparr>]"

text \<open>\<^verbatim>\<open>min(years)\<close> and \<^verbatim>\<open>max(years)\<close> of a non-empty list.\<close>

definition min_years :: "int list \<Rightarrow> int" where
  "min_years ys = fold min (tl ys) (hd ys)"

definition max_years :: "int list \<Rightarrow> int" where
  "max_years ys = fold max (tl ys) (hd ys)"

definition decompose_comparative_query ::
  "string \<Rightarrow> string list \<Rightarrow> int list \<Rightarrow> string list \<Rightarrow> SubQuery list" where
  "decompose_comparative_query query companies years metrics =
     (if length companies = 1 \<and> length years > 1 \<and> length metrics \<ge> 1
      then
        (let company = companies ! 0;
             metric = metrics ! 0;
             per_year = map (\<lambda>year.
                 \<lparr>sq_text = company @ '' '' @ metric @ '' '' @ str_int year,
                  sq_query_type = SIMPLE_DIRECT,
                  sq_company = Some company, sq_year = Some year,
                  sq_metric = Some metric, sq_section_hint = None\<rparr>) years
         in if length years = 2
            then per_year @
              [\<lparr>sq_text = ''Calculate growth from '' @ str_int (min_years years)
                            @ '' to '' @ str_int (max_years years),
                sq_query_type = CALCULATION,
                sq_company = Some company, sq_year = None,
                sq_metric = Some metric, sq_section_hint = None\<rparr>]
            else per_year)
      else [])"

definition roster :: "string list" where
  "roster = [''GOOGL'', ''MSFT'', ''NVDA'']"

definition decompose_cross_company_query ::
  "string \<Rightarrow> string list \<Rightarrow> int list \<Rightarrow> string list \<Rightarrow> SubQuery list" where
  "decompose_cross_company_query query companies years metrics =
     (let year = first_or_none years;
          metric = first_or_none metrics;
          target_companies = (if companies \<noteq> [] then companies else roster);
          per_company = map (\<lambda>company.
              \<lparr>sq_text = (if truthy_str metric \<and> truthy_int year
                           then company @ '' '' @ the metric @ '' '' @ str_int (the year)
                           else company @ '' '' @ query),
               sq_query_type = SIMPLE_DIRECT,
               sq_company = Some company, sq_year = year,
               sq_metric = metric, sq_section_hint = None\<rparr>) target_companies;
          comparison_text = (if truthy_str metric
                             then ''Compare '' @ the metric @ '' across companies''
                             else ''Compare across companies'')
      in per_company @
           [\<lparr>sq_text = comparison_text, sq_query_type = CALCULATION,
             sq_company = None, sq_year = None,
             sq_metric = metric, sq_section_hint = None\<rparr>])"

definition calculation_type_of :: "string \<Rightarrow> string" where
  "calculation_type_of query =
     (let query_lower = lower query in
      if any_in [''growth'', ''grew'', ''increase''] query_lower then ''growth''
      else if any_in comparison_keywords query_lower then ''comparison''
      else ''general'')"

definition decompose_query :: "string \<Rightarrow> DecomposedQuery" where
  "decompose_query query =
     (let companies = extract_companies query;
          years = extract_years query;
          metrics = extract_metrics query;
          query_type = classify_query_type query companies years;
          (subs, requires) =
             (if query_type = SIMPLE_DIRECT
                then (decompose_simple_query query companies years metrics, False)
              else if query_type = COMPARATIVE
                then (decompose_comparative_query query companies years metrics, True)
              else if query_type = CROSS_COMPANY
                then (decompose_cross_company_query query companies years metrics, True)
              else (decompose_simple_query query companies years metrics, True))
      in \<lparr>original_query = query, dq_query_type = query_type, sub_queries = subs,
          requires_calculation = requires,
          calculation_type = (if requires then Some (calculation_type_of query) else None)\<rparr>)"

section \<open>Exceptions\<close>

text \<open>
  A function that may raise returns \<open>exn + 'a\<close>, \<open>Inl\<close> carrying the exception. The string is
  \<^verbatim>\<open>str(e)\<close>. Only \<^verbatim>\<open>Exception\<close> and its subclasses are modelled, which is what
  \<^verbatim>\<open>except Exception\<close> catches.
\<close>

datatype exn = PyException string

fun exn_message :: "exn \<Rightarrow> string" where
  "exn_message (PyException msg) = msg"

definition try_except :: "exn + 'a \<Rightarrow> (exn \<Rightarrow> exn + 'a) \<Rightarrow> exn + 'a" where
  "try_except body handler = (case body of Inl e \<Rightarrow> handler e | Inr v \<Rightarrow> Inr v)"

definition and_then :: "exn + 'a \<Rightarrow> ('a \<Rightarrow> exn + 'b) \<Rightarrow> exn + 'b" where
  "and_then m f = (case m of Inl e \<Rightarrow> Inl e | Inr v \<Rightarrow> f v)"

definition then_do :: "exn + unit \<Rightarrow> exn + 'a \<Rightarrow> exn + 'a" where
  "then_do m k = and_then m (\<lambda>u. k)"

definition index_error :: exn where
  "index_error = PyException ''list index out of range''"

section \<open>Floating point numbers\<close>

text \<open>
  A Python \<^verbatim>\<open>float\<close> that is not negative: \<open>Float m e\<close> is the IEEE double of value
  \<open>m\<close> times two to the power \<open>e\<close>, in the form the format stores (a mantissa of 53 bits
  with an exponent from -1074 to 971, or a smaller mantissa with the exponent -1074), and
  \<open>Infinity\<close> is \<^verbatim>\<open>inf\<close>.
\<close>

datatype pyfloat = Float int int | Infinity

function bit_length :: "int \<Rightarrow> nat" where
  "bit_length n = (if n \<le> 0 then 0 else Suc (bit_length (n div 2)))"
  by pat_completeness auto
termination
  by (relation "measure nat") auto

declare bit_length.simps [simp del]

text \<open>The integer nearest to a quotient of positive integers, a tie going to the even one.\<close>

definition round_div :: "int \<Rightarrow> int \<Rightarrow> int" where
  "round_div n d =
     (let q = n div d; r = n mod d
      in if 2 * r < d then q else if d < 2 * r then q + 1 else if even q then q else q + 1)"

text \<open>The exponent of the highest power of two that is at most a quotient of positive integers.\<close>

definition floor_log2 :: "int \<Rightarrow> int \<Rightarrow> int" where
  "floor_log2 n d =
     (let k = int (bit_length n) - int (bit_length d)
      in if (if 0 \<le> k then d * 2 ^ nat k \<le> n else d \<le> n * 2 ^ nat (- k)) then k else k - 1)"

text \<open>
  The double nearest to the quotient of \<open>n\<close> by \<open>d\<close> (round to nearest, ties to even, with
  gradual underflow and overflow to infinity), which is how \<^verbatim>\<open>float\<close> reads a decimal
  numeral and how the product of two doubles is rounded.
\<close>

definition round_to_double :: "int \<Rightarrow> int \<Rightarrow> pyfloat" where
  "round_to_double n d =
     (if n = 0 then Float 0 (- 1074)
      else
        let e = max (- 1074) (floor_log2 n d - 52);
            m = (if 0 \<le> e then round_div n (d * 2 ^ nat e)
                 else round_div (n * 2 ^ nat (- e)) d);
            e' = (if m = 2 ^ 53 then e + 1 else e);
            m' = (if m = 2 ^ 53 then 2 ^ 52 else m)
        in if 971 < e' then Infinity else Float m' e')"

text \<open>
  \<^verbatim>\<open>x * k\<close> for a float and a positive integer below two to the power 53, which converts
  to a double without rounding.
\<close>

fun float_times :: "pyfloat \<Rightarrow> int \<Rightarrow> pyfloat" where
  "float_times Infinity k = Infinity"
| "float_times (Float m e) k =
     (if 0 \<le> e then round_to_double (m * k * 2 ^ nat e) 1
      else round_to_double (m * k) (2 ^ nat (- e)))"

text \<open>The number a finite float stands for.\<close>

fun float_value :: "pyfloat \<Rightarrow> rat option" where
  "float_value Infinity = None"
| "float_value (Float m e) =
     Some (if 0 \<le> e then of_int m * 2 ^ nat e else of_int m / 2 ^ nat (- e))"

section \<open>Vector store (vector\_store.py)\<close>

text \<open>The payload written by \<^verbatim>\<open>store_chunks\<close> and a point returned by the search client.\<close>

record payload =
  p_chunk_id :: string
  p_content :: string
  p_company :: string
  p_year :: int
  p_section :: "string option"
  p_source_file :: string
  p_chunk_index :: int
  p_start_char :: int
  p_end_char :: int
  p_metadata :: "(string \<times> string) list"

record scored_point =
  sp_score :: rat
  sp_payload :: payload

text \<open>A search result as \<^verbatim>\<open>similarity_search\<close> formats it. Scores are exact rationals.\<close>

record chunk =
  score :: rat
  chunk_id :: string
  content :: string
  company :: string
  year :: int
  chunk_section :: "string option"
  source_file :: string
  metadata :: "(string \<times> string) list"

datatype match_value = MatchStr string | MatchInt int

record search_request =
  collection_name :: string
  query_vector :: "rat list"
  limit :: int
  query_filter :: "(string \<times> match_value) list option"
  with_payload :: bool
  with_vectors :: bool

record chat_request =
  model :: string
  messages :: "(string \<times> string) list"
  temperature :: pyfloat
  max_tokens :: int

text \<open>
  The external collaborators: the embedding model, the vector database client, the chat
  completion client and the console that \<^verbatim>\<open>print\<close> writes to. The chat client yields the
  \<^verbatim>\<open>message.content\<close> of each returned choice, which the client library types as an
  optional string. Each of them may raise.
\<close>

record capabilities =
  encode :: "string list \<Rightarrow> exn + rat list list"
  client_search :: "search_request \<Rightarrow> exn + scored_point list"
  chat_create :: "chat_request \<Rightarrow> exn + string option list"
  console :: "string \<Rightarrow> exn + unit"

definition generate_embeddings :: "capabilities \<Rightarrow> string list \<Rightarrow> exn + rat list list" where
  "generate_embeddings caps texts =
     try_except (encode caps texts)
       (\<lambda>e. then_do (console caps (''Error generating embeddings: '' @ exn_message e))
                (Inr []))"

definition format_result :: "scored_point \<Rightarrow> chunk" where
  "format_result scored =
     \<lparr>score = sp_score scored,
      chunk_id = p_chunk_id (sp_payload scored),
      content = p_content (sp_payload scored),
      company = p_company (sp_payload scored),
      year = p_year (sp_payload scored),
      chunk_section = p_section (sp_payload scored),
      source_file = p_source_file (sp_payload scored),
      metadata = p_metadata (sp_payload scored)\<rparr>"

definition build_filter ::
  "string option \<Rightarrow> int option \<Rightarrow> string option \<Rightarrow> (string \<times> match_value) list option" where
  "build_filter company_filter year_filter section_filter =
     (let filter_conditions =
            (if truthy_str company_filter then [(''company'', MatchStr (the company_filter))] else [])
          @ (if truthy_int year_filter then [(''year'', MatchInt (the year_filter))] else [])
          @ (if truthy_str section_filter then [(''section'', MatchStr (the section_filter))] else [])
      in if filter_conditions \<noteq> [] then Some filter_conditions else None)"

definition search_request_of ::
  "string \<Rightarrow> int \<Rightarrow> string option \<Rightarrow> int option \<Rightarrow> string option \<Rightarrow> rat list
     \<Rightarrow> search_request" where
  "search_request_of query top_k company_filter year_filter section_filter query_embedding =
     \<lparr>collection_name = ''financial_documents'', query_vector = query_embedding,
      limit = top_k,
      query_filter = build_filter company_filter year_filter section_filter,
      with_payload = True, with_vectors = False\<rparr>"

definition similarity_search_body ::
  "capabilities \<Rightarrow> string \<Rightarrow> int \<Rightarrow> string option \<Rightarrow> int option \<Rightarrow> string option
     \<Rightarrow> exn + chunk list" where
  "similarity_search_body caps query top_k company_filter year_filter section_filter =
     and_then (generate_embeddings caps [query]) (\<lambda>embeddings.
       case embeddings of
         [] \<Rightarrow> Inl index_error
       | query_embedding # _ \<Rightarrow>
           and_then
             (client_search caps
                (search_request_of query top_k company_filter year_filter section_filter
                   query_embedding))
             (\<lambda>search_result. Inr (map format_result search_result)))"

definition similarity_search ::
  "capabilities \<Rightarrow> string \<Rightarrow> int \<Rightarrow> string option \<Rightarrow> int option \<Rightarrow> string option
     \<Rightarrow> exn + chunk list" where
  "similarity_search caps query top_k company_filter year_filter section_filter =
     try_except
       (similarity_search_body caps query top_k company_filter year_filter section_filter)
       (\<lambda>e. then_do (console caps (''Error in similarity search: '' @ exn_message e))
                (Inr []))"

section \<open>Multi-step retriever (multi\_step\_retriever.py)\<close>

record RetrievalResult =
  rr_sub_query :: SubQuery
  retrieved_chunks :: "chunk list"
  relevance_scores :: "rat list"

definition retrieve_for_sub_query ::
  "capabilities \<Rightarrow> SubQuery \<Rightarrow> int \<Rightarrow> exn + RetrievalResult" where
  "retrieve_for_sub_query caps sub_query top_k =
     and_then
       (similarity_search caps (sq_text sub_query) top_k (sq_company sub_query)
          (sq_year sub_query) (sq_section_hint sub_query))
       (\<lambda>search_results.
          Inr \<lparr>rr_sub_query = sub_query, retrieved_chunks = search_results,
               relevance_scores = map score search_results\<rparr>)"

fun retrieve_loop ::
  "capabilities \<Rightarrow> SubQuery list \<Rightarrow> RetrievalResult list \<Rightarrow> exn + RetrievalResult list" where
  "retrieve_loop caps [] retrieval_results = Inr retrieval_results"
| "retrieve_loop caps (sub_query # rest) retrieval_results =
     (if sq_query_type sub_query = CALCULATION then retrieve_loop caps rest retrieval_results
      else
        then_do (console caps (''Retrieving for: '' @ sq_text sub_query))
          (and_then (retrieve_for_sub_query caps sub_query 5) (\<lambda>result.
             then_do
               (console caps
                  (''  Found '' @ str_nat (length (retrieved_chunks result))
                     @ '' relevant chunks''))
               (retrieve_loop caps rest (retrieval_results @ [result])))))"

definition retrieve_multi_step :: "capabilities \<Rightarrow> DecomposedQuery \<Rightarrow> exn + RetrievalResult list" where
  "retrieve_multi_step caps decomposed_query =
     retrieve_loop caps (sub_queries decomposed_query) []"

subsection \<open>Numeric fact extraction\<close>

text \<open>
  One attempt of the pattern
  \<^verbatim>\<open>\$?(\d{1,3}(?:,\d{3})*(?:\.\d+)?)\s*(billion|million|thousand|B|M|K)?\<close>
  (case-insensitive) at the head of a text. Every part behind the first digits may match the
  empty string, so the greedy choice of each part is the match the backtracking engine returns.
\<close>

fun comma_groups :: "string \<Rightarrow> string" where
  "comma_groups (c # d1 # d2 # d3 # rest) =
     (if c = CHR '','' \<and> is_digit d1 \<and> is_digit d2 \<and> is_digit d3
      then c # d1 # d2 # d3 # comma_groups rest
      else [])"
| "comma_groups cs = []"

fun fraction_part :: "string \<Rightarrow> string" where
  "fraction_part (c # d # rest) =
     (if c = CHR ''.'' \<and> is_digit d then c # takeWhile is_digit (d # rest) else [])"
| "fraction_part cs = []"

definition unit_alternatives :: "string list" where
  "unit_alternatives = [''billion'', ''million'', ''thousand'', ''B'', ''M'', ''K'']"

definition match_unit :: "string \<Rightarrow> string option" where
  "match_unit s =
     map_option (\<lambda>u. take (length u) s)
       (find (\<lambda>u. starts_with (lower s) (lower u)) unit_alternatives)"

text \<open>The part of the pattern behind \<^verbatim>\<open>\$?\<close>: group 1, group 2 and the length matched.\<close>

definition match_number :: "string \<Rightarrow> (string \<times> string option \<times> nat) option" where
  "match_number s =
     (let digits = takeWhile is_digit (take 3 s) in
      if digits = [] then None
      else
        let r1 = drop (length digits) s;
            groups = comma_groups r1;
            r2 = drop (length groups) r1;
            fraction = fraction_part r2;
            r3 = drop (length fraction) r2;
            spaces = takeWhile is_space r3;
            r4 = drop (length spaces) r3;
            unit = match_unit r4
        in Some (digits @ groups @ fraction, unit,
                 length digits + length groups + length fraction + length spaces
                   + (case unit of None \<Rightarrow> 0 | Some u \<Rightarrow> length u)))"

definition match_at :: "string \<Rightarrow> (string \<times> string option \<times> nat) option" where
  "match_at s =
     (if s \<noteq> [] \<and> hd s = CHR ''$''
      then map_option (\<lambda>(g1, g2, n). (g1, g2, Suc n)) (match_number (tl s))
      else match_number s)"

record re_match =
  m_start :: nat
  m_end :: nat
  group0 :: string
  group1 :: string
  group2 :: "string option"

text \<open>\<^verbatim>\<open>re.finditer\<close>: leftmost matches, the scan resuming at the end of each match.\<close>

fun finditer_from :: "nat \<Rightarrow> string \<Rightarrow> re_match list" where
  "finditer_from pos [] = []"
| "finditer_from pos (c # cs) =
     (case match_at (c # cs) of
        None \<Rightarrow> finditer_from (Suc pos) cs
      | Some (g1, g2, n) \<Rightarrow>
          \<lparr>m_start = pos, m_end = pos + n, group0 = take n (c # cs),
           group1 = g1, group2 = g2\<rparr>
          # finditer_from (pos + n) (drop (n - 1) cs))"

definition finditer :: "string \<Rightarrow> re_match list" where
  "finditer text = finditer_from 0 text"

text \<open>
  \<^verbatim>\<open>float(s)\<close> on the plain decimal notation that group 1 can hold, digits with an
  optional point and further digits: the nearest double. \<open>None\<close> is \<^verbatim>\<open>ValueError\<close>.
\<close>

definition float_of_str :: "string \<Rightarrow> pyfloat option" where
  "float_of_str s =
     (let int_part = takeWhile is_digit s;
          rest = dropWhile is_digit s
      in if rest = []
         then (if int_part = [] then None else Some (round_to_double (int_of_digits int_part) 1))
         else if hd rest = CHR ''.'' \<and> list_all is_digit (tl rest)
                 \<and> (int_part \<noteq> [] \<or> tl rest \<noteq> [])
         then Some (round_to_double (int_of_digits (int_part @ tl rest)) (10 ^ length (tl rest)))
         else None)"

definition strip :: "string \<Rightarrow> string" where
  "strip s = rev (dropWhile is_space (rev (dropWhile is_space s)))"

record number =
  n_value :: pyfloat
  n_original_text :: string
  n_context :: string
  n_unit :: "string option"

definition convert_to_base_units :: "pyfloat \<Rightarrow> string option \<Rightarrow> pyfloat" where
  "convert_to_base_units v unit =
     (if truthy_str unit
      then (let unit_lower = lower (the unit) in
            if unit_lower \<in> set [''billion'', ''b''] then float_times v 1000000000
            else if unit_lower \<in> set [''million'', ''m''] then float_times v 1000000
            else if unit_lower \<in> set [''thousand'', ''k''] then float_times v 1000
            else v)
      else v)"

text \<open>
  The body of the loop over the matches; \<open>None\<close> is the \<^verbatim>\<open>continue\<close> of the handler.
  The start of the context is \<^verbatim>\<open>max(0, match.start() - 50)\<close>, which is the truncating
  subtraction of natural numbers.
\<close>

definition number_of_match :: "string \<Rightarrow> re_match \<Rightarrow> number option" where
  "number_of_match text m =
     (let value_str = filter (\<lambda>c. c \<noteq> CHR '','') (group1 m);
          unit = group2 m
      in case float_of_str value_str of
           None \<Rightarrow> None
         | Some v \<Rightarrow>
             (let start = m_start m - 50;
                  end_pos = min (length text) (m_end m + 50)
              in Some \<lparr>n_value = convert_to_base_units v unit,
                       n_original_text = group0 m,
                       n_context = strip (take (end_pos - start) (drop start text)),
                       n_unit = unit\<rparr>))"

definition extract_numbers_from_text :: "string \<Rightarrow> string option \<Rightarrow> number list" where
  "extract_numbers_from_text text metric = List.map_filter (number_of_match text) (finditer text)"

subsection \<open>Calculation data\<close>

text \<open>
  \<^verbatim>\<open>calculation_data\<close> and the \<^verbatim>\<open>"metrics"\<close> dictionary inside each entry are
  association lists in insertion order; the metric key may be \<^verbatim>\<open>None\<close>.
\<close>

record calc_entry =
  ce_company :: string
  ce_year :: int
  ce_chunks :: "chunk list"
  ce_metrics :: "(string option \<times> number list) list"

definition extend_metric ::
  "string option \<Rightarrow> number list \<Rightarrow> (string option \<times> number list) list
     \<Rightarrow> (string option \<times> number list) list" where
  "extend_metric metric numbers metrics =
     (let metrics1 = (if metric \<notin> fst ` set metrics then metrics @ [(metric, [])] else metrics)
      in AList.map_entry metric (\<lambda>found. found @ numbers) metrics1)"

definition extract_from_chunk ::
  "string \<Rightarrow> string option \<Rightarrow> chunk \<Rightarrow> (string \<times> calc_entry) list
     \<Rightarrow> (string \<times> calc_entry) list" where
  "extract_from_chunk key metric chunk calculation_data =
     (let numbers = extract_numbers_from_text (content chunk) metric in
      if numbers \<noteq> []
      then AList.map_entry key
             (\<lambda>entry. entry\<lparr>ce_metrics := extend_metric metric numbers (ce_metrics entry)\<rparr>)
             calculation_data
      else calculation_data)"

definition extract_from_result ::
  "RetrievalResult \<Rightarrow> (string \<times> calc_entry) list \<Rightarrow> (string \<times> calc_entry) list" where
  "extract_from_result result calculation_data =
     (let company = sq_company (rr_sub_query result);
          year = sq_year (rr_sub_query result);
          metric = sq_metric (rr_sub_query result)
      in if truthy_str company \<and> truthy_int year
         then
           (let key = the company @ ''_'' @ str_int (the year);
                data1 = (if key \<notin> fst ` set calculation_data
                         then calculation_data
                                @ [(key, \<lparr>ce_company = the company, ce_year = the year,
                                          ce_chunks = [], ce_metrics = []\<rparr>)]
                         else calculation_data);
                data2 = AList.map_entry key
                          (\<lambda>entry. entry\<lparr>ce_chunks := ce_chunks entry @ retrieved_chunks result\<rparr>)
                          data1
            in fold (extract_from_chunk key metric) (retrieved_chunks result) data2)
         else calculation_data)"

definition extract_financial_data ::
  "RetrievalResult list \<Rightarrow> DecomposedQuery \<Rightarrow> (string \<times> calc_entry) list" where
  "extract_financial_data retrieval_results decomposed_query =
     (if \<not> requires_calculation decomposed_query then []
      else fold extract_from_result retrieval_results [])"

subsection \<open>Context synthesis\<close>

text \<open>A chunk copied with the text of the sub-query that retrieved it.\<close>

record tagged_chunk = chunk +
  sub_query :: string

definition tag_chunk :: "chunk \<Rightarrow> string \<Rightarrow> tagged_chunk" where
  "tag_chunk c sub_query_text =
     \<lparr>score = score c, chunk_id = chunk_id c, content = content c, company = company c,
      year = year c, chunk_section = chunk_section c, source_file = source_file c,
      metadata = metadata c, sub_query = sub_query_text\<rparr>"

definition untag_chunk :: "tagged_chunk \<Rightarrow> chunk" where
  "untag_chunk t =
     \<lparr>score = score t, chunk_id = chunk_id t, content = content t, company = company t,
      year = year t, chunk_section = chunk_section t, source_file = source_file t,
      metadata = metadata t\<rparr>"

text \<open>The loop that fills \<^verbatim>\<open>all_chunks\<close> and \<^verbatim>\<open>seen_chunk_ids\<close>.\<close>

definition collect_chunk ::
  "string \<Rightarrow> chunk \<Rightarrow> tagged_chunk list \<times> string set \<Rightarrow> tagged_chunk list \<times> string set" where
  "collect_chunk sub_query_text c state =
     (case state of (all_chunks, seen_chunk_ids) \<Rightarrow>
        if chunk_id c \<notin> seen_chunk_ids
        then (all_chunks @ [tag_chunk c sub_query_text], insert (chunk_id c) seen_chunk_ids)
        else (all_chunks, seen_chunk_ids))"

definition collect_chunks :: "RetrievalResult list \<Rightarrow> tagged_chunk list" where
  "collect_chunks retrieval_results =
     fst (fold (\<lambda>result. fold (collect_chunk (sq_text (rr_sub_query result)))
                             (retrieved_chunks result))
            retrieval_results ([], {}))"

text \<open>\<^verbatim>\<open>all_chunks.sort(key=lambda x: x["score"], reverse=True)\<close>, a stable sort.\<close>

definition ranked_chunks :: "RetrievalResult list \<Rightarrow> tagged_chunk list" where
  "ranked_chunks retrieval_results = sort_key (\<lambda>c. - score c) (collect_chunks retrieval_results)"

text \<open>The format \<^verbatim>\<open>:.3f\<close>: three decimals, rounding the exact value half to even.\<close>

definition round_half_even :: "rat \<Rightarrow> int" where
  "round_half_even x =
     (let f = \<lfloor>x\<rfloor>; r = x - of_int f
      in if r < 1 / 2 then f else if r > 1 / 2 then f + 1 else if even f then f else f + 1)"

definition format_3f :: "rat \<Rightarrow> string" where
  "format_3f x =
     (let n = nat (round_half_even (\<bar>x\<bar> * 1000))
      in (if x < 0 then ''-'' else []) @ str_nat (n div 1000) @ ''.''
         @ [digit_char (n div 100), digit_char (n div 10), digit_char n])"

definition render_entry :: "nat \<times> tagged_chunk \<Rightarrow> string list" where
  "render_entry ic =
     (case ic of (i, c) \<Rightarrow>
        [''### Relevant Information '' @ str_nat (i + 1),
         ''**Source**: '' @ company c @ '' '' @ str_int (year c) @ '' (''
            @ (if truthy_str (chunk_section c) then the (chunk_section c) else ''General'')
            @ '')'',
         ''**Relevance**: '' @ format_3f (score c),
         ''**Content**: '' @ take 1000 (content c) @ ''...'',
         []])"

definition rendered_entries :: "RetrievalResult list \<Rightarrow> string list list" where
  "rendered_entries retrieval_results =
     map render_entry (enumerate 0 (take 10 (ranked_chunks retrieval_results)))"

definition context_parts :: "RetrievalResult list \<Rightarrow> DecomposedQuery \<Rightarrow> string list" where
  "context_parts retrieval_results decomposed_query =
     [''Query: '' @ original_query decomposed_query,
      ''Query Type: '' @ query_type_value (dq_query_type decomposed_query),
      []]
     @ concat (rendered_entries retrieval_results)"

fun join_lines :: "string list \<Rightarrow> string" where
  "join_lines [] = []"
| "join_lines [l] = l"
| "join_lines (l # ls) = l @ [CHR 0x0A] @ join_lines ls"

definition synthesize_context :: "RetrievalResult list \<Rightarrow> DecomposedQuery \<Rightarrow> string" where
  "synthesize_context retrieval_results decomposed_query =
     join_lines (context_parts retrieval_results decomposed_query)"

text \<open>
  One call of \<^verbatim>\<open>synthesize_context\<close> with the objects it was given: the text it returns,
  the local \<^verbatim>\<open>all_chunks\<close> after sorting, and the retrieval results as the call leaves them.
  The source copies every chunk before tagging it and sorts only its local list, so the
  retrieval results are handed back as they came.
\<close>

definition synthesize_context_run ::
  "RetrievalResult list \<Rightarrow> DecomposedQuery
     \<Rightarrow> (string \<times> tagged_chunk list) \<times> RetrievalResult list" where
  "synthesize_context_run retrieval_results decomposed_query =
     ((synthesize_context retrieval_results decomposed_query, ranked_chunks retrieval_results),
      retrieval_results)"

subsection \<open>The pipeline\<close>

record ContextSynthesis =
  cs_original_query :: string
  decomposed_query :: DecomposedQuery
  retrieval_results :: "RetrievalResult list"
  synthesized_context :: string
  cs_requires_calculation :: bool
  calculation_data :: "(string \<times> calc_entry) list option"

definition process_query :: "capabilities \<Rightarrow> string \<Rightarrow> exn + ContextSynthesis" where
  "process_query caps query =
     then_do (console caps (''Processing query: '' @ query))
    (then_do (console caps ''Step 1: Decomposing query...'')
    (let dq = decompose_query query in
     then_do (console caps (''  Query type: '' @ query_type_value (dq_query_type dq)))
    (then_do (console caps (''  Sub-queries: '' @ str_nat (length (sub_queries dq))))
    (then_do (console caps ''Step 2: Multi-step retrieval...'')
    (and_then (retrieve_multi_step caps dq) (\<lambda>results.
     and_then
       (if requires_calculation dq
        then then_do (console caps ''Step 3: Extracting calculation data...'')
               (Inr (Some (extract_financial_data results dq)))
        else Inr None) (\<lambda>calc.
     then_do (console caps ''Step 4: Synthesizing context...'')
       (Inr \<lparr>cs_original_query = query, decomposed_query = dq,
              retrieval_results = results,
              synthesized_context = synthesize_context results dq,
              cs_requires_calculation = requires_calculation dq,
              calculation_data = calc\<rparr>))))))))"

definition system_prompt :: string where
  "system_prompt = join_lines
     [''You are a financial analyst assistant. Your task is to answer questions about financial data from SEC 10-K filings.'',
      [],
      ''Key guidelines:'',
      ''1. Base your answers strictly on the provided context'',
      ''2. When performing calculations, show your work step by step'',
      ''3. Include specific numbers with units (millions, billions)'',
      ''4. Cite the relevant company and year for data points'',
      ''5. If you cannot find specific information, state this clearly'',
      ''6. For comparative queries, present data in a structured format'',
      [],
      ''The context includes relevant excerpts from financial documents. Use this information to provide accurate, detailed answers.'']"

definition str_bool :: "bool \<Rightarrow> string" where
  "str_bool b = (if b then ''True'' else ''False'')"

definition user_prompt :: "ContextSynthesis \<Rightarrow> string" where
  "user_prompt cs = join_lines
     [''Please answer the following financial question based on the provided context:'',
      [],
      ''Question: '' @ cs_original_query cs,
      [],
      ''Context:'',
      synthesized_context cs,
      [],
      ''Additional Information:'',
      ''- Query requires calculation: '' @ str_bool (cs_requires_calculation cs),
      ''- Query type: '' @ query_type_value (dq_query_type (decomposed_query cs)),
      [],
      ''Please provide a comprehensive answer based on the available information.'']"

text \<open>
  The request of \<^verbatim>\<open>generate_final_answer\<close>, and the function: it returns the content of
  the first choice as it is, a string or \<^verbatim>\<open>None\<close>.
\<close>

definition chat_request_of :: "ContextSynthesis \<Rightarrow> chat_request" where
  "chat_request_of cs =
     \<lparr>model = ''gpt-4'',
      messages = [(''system'', system_prompt), (''user'', user_prompt cs)],
      temperature = round_to_double 1 10, max_tokens = 1000\<rparr>"

definition generate_final_answer ::
  "capabilities \<Rightarrow> ContextSynthesis \<Rightarrow> exn + string option" where
  "generate_final_answer caps cs =
     try_except
       (and_then (chat_create caps (chat_request_of cs))
          (\<lambda>choices. case choices of [] \<Rightarrow> Inl index_error | first # _ \<Rightarrow> Inr first))
       (\<lambda>e. Inr (Some (''Error generating answer: '' @ exn_message e)))"

section \<open>Assistant (rag\_assistant.py)\<close>

text \<open>
  The retriever object held by the assistant, as the two methods \<^verbatim>\<open>answer_query\<close> calls,
  and the retriever the constructor builds.
\<close>

record retriever =
  r_process_query :: "string \<Rightarrow> exn + ContextSynthesis"
  r_generate_final_answer :: "ContextSynthesis \<Rightarrow> exn + string option"

definition multi_step_retriever :: "capabilities \<Rightarrow> retriever" where
  "multi_step_retriever caps =
     \<lparr>r_process_query = process_query caps,
      r_generate_final_answer = generate_final_answer caps\<rparr>"

text \<open>The assistant, with the console its own \<^verbatim>\<open>print\<close> calls write to.\<close>

record assistant =
  is_initialized :: bool
  the_retriever :: retriever
  a_console :: "string \<Rightarrow> exn + unit"

definition rag_assistant :: "capabilities \<Rightarrow> bool \<Rightarrow> assistant" where
  "rag_assistant caps initialized =
     \<lparr>is_initialized = initialized, the_retriever = multi_step_retriever caps,
      a_console = console caps\<rparr>"

text \<open>
  Three symbols in the literals of the source lie beyond U+00FF: U+274C, U+1F4AD and U+1F916.
  Each is written as the bytes of its UTF-8 encoding.
\<close>

definition cross_mark :: string where
  "cross_mark = [CHR 0xE2, CHR 0x9D, CHR 0x8C]"

definition thought_balloon :: string where
  "thought_balloon = [CHR 0xF0, CHR 0x9F, CHR 0x92, CHR 0xAD]"

definition robot_face :: string where
  "robot_face = [CHR 0xF0, CHR 0x9F, CHR 0xA4, CHR 0x96]"

definition not_initialized_message :: string where
  "not_initialized_message =
     cross_mark @ '' System not initialized. Please run setup first.''"

text \<open>
  \<^verbatim>\<open>answer_query\<close> returns a string or \<^verbatim>\<open>None\<close>. The \<^verbatim>\<open>print\<close> of its handler is
  outside any \<^verbatim>\<open>try\<close>.
\<close>

definition answer_query :: "assistant \<Rightarrow> string \<Rightarrow> exn + string option" where
  "answer_query self query =
     try_except
       (if \<not> is_initialized self then Inr (Some not_initialized_message)
        else
          then_do (a_console self ([CHR 0x0A] @ thought_balloon @ '' Processing query: '' @ query))
            (and_then (r_process_query (the_retriever self) query) (\<lambda>context_synthesis.
               then_do (a_console self (robot_face @ '' Generating final answer...''))
                 (r_generate_final_answer (the_retriever self) context_synthesis))))
       (\<lambda>e. then_do (a_console self (cross_mark @ '' Error processing query: '' @ exn_message e))
                (Inr (Some (''Error: '' @ exn_message e))))"

section \<open>Notions used in the properties\<close>

text \<open>A query mentions a tracked company when an alias of its ticker occurs in it.\<close>

definition mentions :: "string \<Rightarrow> string \<Rightarrow> bool" where
  "mentions query ticker =
     list_ex (\<lambda>(name, t). t = ticker \<and> contains (lower query) name) company_mappings"

definition has_comparison_keyword :: "string \<Rightarrow> bool" where
  "has_comparison_keyword query = (\<exists>k \<in> set comparison_keywords. contains (lower query) k)"

definition has_temporal_keyword :: "string \<Rightarrow> bool" where
  "has_temporal_keyword query =
     (\<exists>k \<in> set ([''growth'', ''grew'', ''increase'', ''increased'', ''change'']
                 @ [''decline'', ''decreased'', ''drop'', ''fell'']
                 @ [''compare'', ''comparison'', ''versus'', ''vs'', ''compared to'']).
        contains (lower query) k)"

definition has_calculation_keyword :: "string \<Rightarrow> bool" where
  "has_calculation_keyword query =
     (\<exists>k \<in> set [''calculate'', ''compute'', ''growth rate'', ''percentage''].
        contains (lower query) k)"

text \<open>The guard of \<^verbatim>\<open>decompose_comparative_query\<close> on the entities of a query.\<close>

definition comparative_precondition :: "string \<Rightarrow> bool" where
  "comparative_precondition query =
     (length (extract_companies query) = 1 \<and> length (extract_years query) > 1
      \<and> length (extract_metrics query) \<ge> 1)"

text \<open>
  The scale of a unit token, the double nearest to the number a matched figure denotes, and
  a float scaled by a unit (no multiplication takes place without a unit).
\<close>

fun unit_multiplier :: "string option \<Rightarrow> int" where
  "unit_multiplier None = 1"
| "unit_multiplier (Some u) =
     (if lower u = ''billion'' \<or> lower u = ''b'' then 10 ^ 9
      else if lower u = ''million'' \<or> lower u = ''m'' then 10 ^ 6
      else if lower u = ''thousand'' \<or> lower u = ''k'' then 10 ^ 3
      else 1)"

definition known_unit :: "string \<Rightarrow> bool" where
  "known_unit u = (lower u \<in> set [''billion'', ''million'', ''thousand'', ''b'', ''m'', ''k''])"

definition decimal_float :: "string \<Rightarrow> pyfloat" where
  "decimal_float s =
     (let ds = filter (\<lambda>c. c \<noteq> CHR '','') s;
          int_digits = takeWhile (\<lambda>c. c \<noteq> CHR ''.'') ds;
          frac_digits = drop 1 (dropWhile (\<lambda>c. c \<noteq> CHR ''.'') ds)
      in round_to_double (int_of_digits (int_digits @ frac_digits)) (10 ^ length frac_digits))"

definition scaled :: "pyfloat \<Rightarrow> int \<Rightarrow> pyfloat" where
  "scaled v k = (if k = 1 then v else float_times v k)"

definition number_shape :: "string \<Rightarrow> bool" where
  "number_shape g \<longleftrightarrow>
     (\<exists>a f. filter (\<lambda>c. c \<noteq> CHR '','') g = a @ f \<and> a \<noteq> [] \<and> list_all is_digit a
        \<and> (f = [] \<or> (\<exists>fd. f = CHR ''.'' # fd \<and> fd \<noteq> [] \<and> list_all is_digit fd)))"

text \<open>
  All retrieved chunks in retrieval order, each with the text of its sub-query, and the
  first occurrence of every chunk id among them.
\<close>

definition flat_tagged :: "RetrievalResult list \<Rightarrow> tagged_chunk list" where
  "flat_tagged results =
     concat (map (\<lambda>result. map (\<lambda>c. tag_chunk c (sq_text (rr_sub_query result)))
                              (retrieved_chunks result))
               results)"

fun first_occurrences :: "tagged_chunk list \<Rightarrow> tagged_chunk list" where
  "first_occurrences [] = []"
| "first_occurrences (x # xs) =
     x # first_occurrences (filter (\<lambda>y. chunk_id y \<noteq> chunk_id x) xs)"

text \<open>One step of the deduplication loop on an already tagged chunk.\<close>

definition collect_step ::
  "tagged_chunk \<Rightarrow> tagged_chunk list \<times> string set \<Rightarrow> tagged_chunk list \<times> string set" where
  "collect_step t state =
     (case state of (all_chunks, seen) \<Rightarrow>
        if chunk_id t \<notin> seen then (all_chunks @ [t], insert (chunk_id t) seen)
        else (all_chunks, seen))"

text \<open>Whether a retrieval result is grouped by \<^verbatim>\<open>extract_financial_data\<close>, and its key.\<close>

definition has_company_and_year :: "RetrievalResult \<Rightarrow> bool" where
  "has_company_and_year result =
     (truthy_str (sq_company (rr_sub_query result)) \<and> truthy_int (sq_year (rr_sub_query result)))"

definition data_key :: "RetrievalResult \<Rightarrow> string" where
  "data_key result =
     the (sq_company (rr_sub_query result)) @ ''_'' @ str_int (the (sq_year (rr_sub_query result)))"

subsection \<open>Sample data\<close>

definition sample_chunk :: "string \<Rightarrow> rat \<Rightarrow> chunk" where
  "sample_chunk cid s =
     \<lparr>score = s, chunk_id = cid, content = ''Revenue was $198.3 billion'', company = ''MSFT'',
      year = 2023, chunk_section = None, source_file = ''MSFT_2023.html'', metadata = []\<rparr>"

definition sample_sub_query :: SubQuery where
  "sample_sub_query =
     \<lparr>sq_text = ''MSFT revenue 2023'', sq_query_type = SIMPLE_DIRECT,
      sq_company = Some ''MSFT'', sq_year = Some 2023, sq_metric = Some ''revenue'',
      sq_section_hint = None\<rparr>"

definition sample_results :: "rat list \<Rightarrow> RetrievalResult list" where
  "sample_results scores =
     [\<lparr>rr_sub_query = sample_sub_query,
       retrieved_chunks = map (\<lambda>(i, s). sample_chunk (str_nat i) s) (enumerate 0 scores),
       relevance_scores = scores\<rparr>]"

text \<open>A retrieval result of a sub-query for which no company was found.\<close>

definition sample_result_no_company :: RetrievalResult where
  "sample_result_no_company =
     \<lparr>rr_sub_query = sample_sub_query\<lparr>sq_text := ''calculate the percentage'',
                                          sq_company := None, sq_year := None,
                                          sq_metric := None\<rparr>,
      retrieved_chunks = [sample_chunk ''x'' 1], relevance_scores = [1]\<rparr>"

definition sample_point :: scored_point where
  "sample_point =
     \<lparr>sp_score = 9 / 10,
      sp_payload = \<lparr>p_chunk_id = ''c1'', p_content = ''Revenue was $198.3 billion'',
                    p_company = ''MSFT'', p_year = 2023, p_section = None,
                    p_source_file = ''MSFT_2023.html'', p_chunk_index = 0,
                    p_start_char = 0, p_end_char = 26, p_metadata = []\<rparr>\<rparr>"

definition nvidia_sub_query :: SubQuery where
  "nvidia_sub_query =
     \<lparr>sq_text = ''NVDA operating_margin 2023'', sq_query_type = SIMPLE_DIRECT,
      sq_company = Some ''NVDA'', sq_year = Some 2023, sq_metric = Some ''operating_margin'',
      sq_section_hint = None\<rparr>"

text \<open>
  Behaviours of the collaborators: all respond; the search client raises; the search client
  finds nothing; the search client raises on the requests filtered for NVDA only; the chat
  client raises; the chat client returns a choice without content; the console raises.
\<close>

definition working_caps :: capabilities where
  "working_caps =
     \<lparr>encode = (\<lambda>texts. Inr (map (\<lambda>t. [1, 0]) texts)),
      client_search = (\<lambda>request. Inr [sample_point]),
      chat_create = (\<lambda>request. Inr [Some ''Revenue was $198.3 billion.'']),
      console = (\<lambda>message. Inr ())\<rparr>"

definition failing_search_caps :: capabilities where
  "failing_search_caps =
     working_caps\<lparr>client_search := (\<lambda>request. Inl (PyException ''connection refused''))\<rparr>"

definition empty_search_caps :: capabilities where
  "empty_search_caps = working_caps\<lparr>client_search := (\<lambda>request. Inr [])\<rparr>"

definition partly_failing_search_caps :: capabilities where
  "partly_failing_search_caps =
     working_caps\<lparr>client_search :=
       (\<lambda>request.
          if query_filter request
               = Some [(''company'', MatchStr ''NVDA''), (''year'', MatchInt 2023)]
          then Inl (PyException ''timed out'')
          else Inr [sample_point])\<rparr>"

definition failing_chat_caps :: capabilities where
  "failing_chat_caps =
     working_caps\<lparr>chat_create := (\<lambda>request. Inl (PyException ''rate limit''))\<rparr>"

definition no_content_caps :: capabilities where
  "no_content_caps = working_caps\<lparr>chat_create := (\<lambda>request. Inr [None])\<rparr>"

definition failing_console_caps :: capabilities where
  "failing_console_caps =
     working_caps\<lparr>console := (\<lambda>message. Inl (PyException ''cannot encode character''))\<rparr>"

section \<open>Properties of the query decomposer\<close>

subsection \<open>Entity extraction\<close>

lemma fold_tickers_set:
  "set (fold (\<lambda>(name, ticker) companies.
              if contains ql name
              then (if ticker \<notin> set companies then companies @ [ticker] else companies)
              else companies) tab acc)
   = set acc \<union> {t. \<exists>name. (name, t) \<in> set tab \<and> contains ql name}"
  by (induction tab arbitrary: acc) (auto split: if_splits)

lemma fold_tickers_distinct:
  "distinct acc \<Longrightarrow>
   distinct (fold (\<lambda>(name, ticker) companies.
              if contains ql name
              then (if ticker \<notin> set companies then companies @ [ticker] else companies)
              else companies) tab acc)"
  by (induction tab arbitrary: acc) (auto split: if_splits)

lemma extract_companies_set: "set (extract_companies q) = {t. mentions q t}"
  unfolding extract_companies_def mentions_def Let_def fold_tickers_set list_ex_iff
  by auto

lemma extract_companies_distinct: "distinct (extract_companies q)"
  unfolding extract_companies_def Let_def by (rule fold_tickers_distinct) simp

lemma two_distinct_members_length:
  assumes "a \<in> set xs" "b \<in> set xs" "a \<noteq> b"
  shows "2 \<le> length xs"
proof -
  have "card {a, b} \<le> card (set xs)" using assms by (intro card_mono) auto
  also have "\<dots> \<le> length xs" by (rule card_length)
  finally show ?thesis using assms by simp
qed

lemma list_set_distinct: "distinct (list_set ys)"
  by (simp add: list_set_def Let_def)

lemma list_set_set: "set (list_set ys) = set ys"
  by (simp add: list_set_def Let_def)

lemma extract_years_range: "y \<in> set (extract_years q) \<Longrightarrow> 2020 \<le> y \<and> y \<le> 2025"
  by (auto simp: extract_years_def Let_def list_set_set)

lemma extract_years_distinct: "distinct (extract_years q)"
  by (simp add: extract_years_def Let_def list_set_distinct)

lemma fold_metrics_set:
  "set (fold (\<lambda>(metric_key, metric_variants) metrics.
              if list_ex (contains ql) metric_variants
              then (if metric_key \<notin> set metrics then metrics @ [metric_key] else metrics)
              else metrics) tab acc)
   = set acc \<union> {k. \<exists>vs. (k, vs) \<in> set tab \<and> list_ex (contains ql) vs}"
  by (induction tab arbitrary: acc) (auto split: if_splits)

lemma extract_metrics_nonempty: "m \<in> set (extract_metrics q) \<Longrightarrow> m \<noteq> []"
proof -
  assume "m \<in> set (extract_metrics q)"
  then have "m \<in> fst ` set financial_metrics"
    unfolding extract_metrics_def Let_def fold_metrics_set by force
  then show ?thesis by (auto simp: financial_metrics_def)
qed

lemma list_set_two_order:
  assumes "list_set ys = [y1, y2]"
  shows "y1 mod 8 \<le> y2 mod 8"
proof -
  have "length (remdups ys) = 2" using assms
    by (metis length_sort list_set_def length_Cons list.size(3) One_nat_def Suc_1)
  then have "sort_key (\<lambda>y. y mod 8) (remdups ys) = [y1, y2]"
    using assms by (simp add: list_set_def Let_def)
  then have "sorted (map (\<lambda>y. y mod 8) [y1, y2])"
    by (metis sorted_sort_key)
  then show ?thesis by simp
qed

lemma any_in_comparison: "any_in comparison_keywords (lower q) = has_comparison_keyword q"
  by (simp add: any_in_def has_comparison_keyword_def list_ex_iff)

lemma any_in_temporal:
  "any_in (concat (map snd temporal_keywords)) (lower q) = has_temporal_keyword q"
  by (simp add: any_in_def has_temporal_keyword_def list_ex_iff temporal_keywords_def)

lemma any_in_calculation:
  "any_in [''calculate'', ''compute'', ''growth rate'', ''percentage''] (lower q)
   = has_calculation_keyword q"
  by (simp add: any_in_def has_calculation_keyword_def list_ex_iff)

lemma decompose_query_type:
  "dq_query_type (decompose_query q)
     = classify_query_type q (extract_companies q) (extract_years q)"
  by (simp add: decompose_query_def Let_def split: prod.splits)

lemma decompose_query_subs:
  "sub_queries (decompose_query q) =
     (let companies = extract_companies q; years = extract_years q;
          metrics = extract_metrics q;
          query_type = classify_query_type q companies years
      in if query_type = COMPARATIVE then decompose_comparative_query q companies years metrics
         else if query_type = CROSS_COMPANY
           then decompose_cross_company_query q companies years metrics
         else decompose_simple_query q companies years metrics)"
  by (simp add: decompose_query_def Let_def split: prod.splits)

lemma decompose_query_requires:
  "requires_calculation (decompose_query q)
     = (dq_query_type (decompose_query q) \<noteq> SIMPLE_DIRECT)"
  by (simp add: decompose_query_def Let_def split: prod.splits)

subsection \<open>Non-empty decomposition\<close>

text \<open>
  The list of sub-queries is empty exactly when the query is classified COMPARATIVE and the
  guard of \<^const>\<open>decompose_comparative_query\<close> (exactly one company, more than one year,
  at least one metric) fails; such a query still requires calculation.
\<close>

lemma decompose_query_sub_queries_empty_iff:
  "(sub_queries (decompose_query q) = []
      \<longleftrightarrow> dq_query_type (decompose_query q) = COMPARATIVE \<and> \<not> comparative_precondition q)
   \<and> (dq_query_type (decompose_query q) = COMPARATIVE \<and> \<not> comparative_precondition q
      \<longrightarrow> requires_calculation (decompose_query q))"
  by (auto simp: decompose_query_subs decompose_query_type decompose_query_requires Let_def
        decompose_comparative_query_def decompose_cross_company_query_def
        decompose_simple_query_def comparative_precondition_def)

text \<open>
  Claim C1 asks for at least one sub-query for every query, a COMPARATIVE query that misses
  the guard falling back to the single SIMPLE\_DIRECT sub-query. The code has no such
  branch: \<^const>\<open>decompose_comparative_query\<close> returns its empty list, where
  \<^const>\<open>decompose_simple_query\<close> and \<^const>\<open>decompose_cross_company_query\<close> always
  emit a sub-query. The example query "Compare revenue across all three companies in 2024"
  of \<^verbatim>\<open>get_query_examples\<close> names no company, is classified COMPARATIVE by its keyword
  and gets no sub-query, as does "revenue growth"; nothing is then retrieved for them.
\<close>

theorem decompose_query_comparative_no_sub_query:
  "dq_query_type (decompose_query ''Compare revenue across all three companies in 2024'')
     = COMPARATIVE
   \<and> extract_companies ''Compare revenue across all three companies in 2024'' = []
   \<and> sub_queries (decompose_query ''Compare revenue across all three companies in 2024'') = []
   \<and> requires_calculation
        (decompose_query ''Compare revenue across all three companies in 2024'')
   \<and> dq_query_type (decompose_query ''revenue growth'') = COMPARATIVE
   \<and> sub_queries (decompose_query ''revenue growth'') = []"
  by code_simp

subsection \<open>One company, two years\<close>

text \<open>
  Claim C4, as the code has it. For a query with exactly one extracted company, exactly two
  extracted years, at least one extracted metric and no comparison keyword, decomposition
  yields exactly three sub-queries: one SIMPLE\_DIRECT sub-query per year with text
  company, metric, year, in the order in which \<^const>\<open>extract_years\<close> lists the two
  years, then one CALCULATION sub-query from the smaller to the larger year. The two years
  are distinct, lie in 2020..2025 and are listed by increasing remainder modulo 8, so that
  2024 and 2025 come before 2020..2023.
\<close>

theorem comparative_two_years_sub_queries:
  assumes "extract_companies q = [c]" and "extract_years q = [y1, y2]"
    and "extract_metrics q = m # ms" and "\<not> has_comparison_keyword q"
  shows "sub_queries (decompose_query q) =
           [\<lparr>sq_text = c @ '' '' @ m @ '' '' @ str_int y1, sq_query_type = SIMPLE_DIRECT,
             sq_company = Some c, sq_year = Some y1, sq_metric = Some m,
             sq_section_hint = None\<rparr>,
            \<lparr>sq_text = c @ '' '' @ m @ '' '' @ str_int y2, sq_query_type = SIMPLE_DIRECT,
             sq_company = Some c, sq_year = Some y2, sq_metric = Some m,
             sq_section_hint = None\<rparr>,
            \<lparr>sq_text = ''Calculate growth from '' @ str_int (min y1 y2)
                         @ '' to '' @ str_int (max y1 y2),
             sq_query_type = CALCULATION,
             sq_company = Some c, sq_year = None, sq_metric = Some m,
             sq_section_hint = None\<rparr>]
         \<and> y1 mod 8 < y2 mod 8 \<and> {y1, y2} \<subseteq> {2020..2025}"
proof -
  have cls: "classify_query_type q [c] [y1, y2] = COMPARATIVE"
    using assms(4) by (simp add: classify_query_type_def Let_def any_in_comparison)
  have subs: "sub_queries (decompose_query q) = decompose_comparative_query q [c] [y1, y2] (m # ms)"
    by (simp add: decompose_query_subs Let_def assms(1-3) cls)
  have rng: "{y1, y2} \<subseteq> {2020..2025}"
    using extract_years_range[of _ q] assms(2) by auto
  have "y1 \<noteq> y2" using extract_years_distinct[of q] assms(2) by simp
  moreover have "y1 mod 8 \<le> y2 mod 8"
    using assms(2) list_set_two_order unfolding extract_years_def Let_def by blast
  moreover have "y1 mod 8 \<noteq> y2 mod 8"
  proof
    assume "y1 mod 8 = y2 mod 8"
    then have "8 dvd (y1 - y2)" by (simp add: mod_eq_dvd_iff)
    moreover have "\<bar>y1 - y2\<bar> < 8" using rng by auto
    ultimately have "y1 - y2 = 0" using dvd_imp_le_int[of "y1 - y2" 8] by fastforce
    with \<open>y1 \<noteq> y2\<close> show False by simp
  qed
  ultimately have ord: "y1 mod 8 < y2 mod 8" by linarith
  show ?thesis
    using ord rng
    by (simp add: subs decompose_comparative_query_def Let_def min_years_def max_years_def
          min.commute max.commute)
qed

theorem comparative_two_years_sub_queries_witness:
  "extract_companies ''Microsoft revenue 2022 2023'' = [''MSFT'']
   \<and> extract_years ''Microsoft revenue 2022 2023'' = [2022, 2023]
   \<and> extract_metrics ''Microsoft revenue 2022 2023'' = [''revenue'']
   \<and> \<not> has_comparison_keyword ''Microsoft revenue 2022 2023''
   \<and> map sq_text (sub_queries (decompose_query ''Microsoft revenue 2022 2023''))
       = [''MSFT revenue 2022'', ''MSFT revenue 2023'', ''Calculate growth from 2022 to 2023'']
   \<and> map sq_query_type (sub_queries (decompose_query ''Microsoft revenue 2022 2023''))
       = [SIMPLE_DIRECT, SIMPLE_DIRECT, CALCULATION]"
proof -
  have a: "extract_companies ''Microsoft revenue 2022 2023'' = [''MSFT'']"
    by code_simp
  have b: "extract_years ''Microsoft revenue 2022 2023'' = [2022, 2023]"
    by code_simp
  have c: "extract_metrics ''Microsoft revenue 2022 2023'' = [''revenue'']"
    by code_simp
  have d: "\<not> has_comparison_keyword ''Microsoft revenue 2022 2023''"
    by code_simp
  have e: "str_int 2022 = ''2022''" "str_int 2023 = ''2023''"
    by (simp_all add: str_int_def str_nat.simps digit_char_def)
  show ?thesis
    using comparative_two_years_sub_queries [OF a b c d] a b c d
    by (simp add: e)
qed

text \<open>
  The claim as stated fails twice. A comparison keyword makes the query CROSS\_COMPANY, with
  two sub-queries; and the years 2023 and 2024 are listed as 2024, 2023, so the per-year
  sub-queries are not in ascending order.
\<close>

theorem comparative_two_years_counterexample:
  "extract_companies ''Microsoft highest revenue 2022 2023'' = [''MSFT'']
   \<and> extract_years ''Microsoft highest revenue 2022 2023'' = [2022, 2023]
   \<and> extract_metrics ''Microsoft highest revenue 2022 2023'' = [''revenue'']
   \<and> map sq_text (sub_queries (decompose_query ''Microsoft highest revenue 2022 2023''))
       = [''MSFT revenue 2022'', ''Compare revenue across companies'']
   \<and> extract_companies ''Microsoft revenue 2023 2024'' = [''MSFT'']
   \<and> extract_metrics ''Microsoft revenue 2023 2024'' = [''revenue'']
   \<and> map sq_text (sub_queries (decompose_query ''Microsoft revenue 2023 2024''))
       = [''MSFT revenue 2024'', ''MSFT revenue 2023'', ''Calculate growth from 2023 to 2024'']"
  by code_simp

subsection \<open>Classification precedence\<close>

text \<open>
  Claim C5. The first matching rule decides: more than one company or a comparison keyword
  gives CROSS\_COMPANY; otherwise more than one year or a growth, decline or comparison
  keyword gives COMPARATIVE; otherwise a calculation keyword gives CALCULATION; otherwise
  SIMPLE\_DIRECT. A query that mentions two different tracked companies is classified
  CROSS\_COMPANY.
\<close>

theorem classify_query_type_precedence:
  "(length companies > 1 \<or> has_comparison_keyword q
      \<longrightarrow> classify_query_type q companies years = CROSS_COMPANY)
   \<and> (\<not> (length companies > 1 \<or> has_comparison_keyword q)
       \<and> (length years > 1 \<or> has_temporal_keyword q)
      \<longrightarrow> classify_query_type q companies years = COMPARATIVE)
   \<and> (\<not> (length companies > 1 \<or> has_comparison_keyword q)
       \<and> \<not> (length years > 1 \<or> has_temporal_keyword q)
       \<and> has_calculation_keyword q
      \<longrightarrow> classify_query_type q companies years = CALCULATION)
   \<and> (\<not> (length companies > 1 \<or> has_comparison_keyword q)
       \<and> \<not> (length years > 1 \<or> has_temporal_keyword q)
       \<and> \<not> has_calculation_keyword q
      \<longrightarrow> classify_query_type q companies years = SIMPLE_DIRECT)
   \<and> (mentions q t1 \<and> mentions q t2 \<and> t1 \<noteq> t2
      \<longrightarrow> dq_query_type (decompose_query q) = CROSS_COMPANY)"
proof -
  have cls: "classify_query_type q companies years =
     (if length companies > 1 \<or> has_comparison_keyword q then CROSS_COMPANY
      else if length years > 1 \<or> has_temporal_keyword q then COMPARATIVE
      else if has_calculation_keyword q then CALCULATION else SIMPLE_DIRECT)" for companies years
    unfolding classify_query_type_def Let_def any_in_comparison any_in_temporal any_in_calculation
    by simp
  have ty: "dq_query_type (decompose_query q)
            = classify_query_type q (extract_companies q) (extract_years q)"
    by (simp add: decompose_query_def Let_def split: prod.splits)
  have two: "dq_query_type (decompose_query q) = CROSS_COMPANY"
    if "mentions q t1 \<and> mentions q t2 \<and> t1 \<noteq> t2"
  proof -
    have "2 \<le> length (extract_companies q)"
      using that two_distinct_members_length[of t1 "extract_companies q" t2]
      by (simp add: extract_companies_set)
    then show ?thesis by (simp add: ty cls)
  qed
  show ?thesis using two by (simp add: cls)
qed

theorem classify_query_type_precedence_witness:
  "mentions ''Compare Google and Microsoft revenue in 2024'' ''GOOGL''
   \<and> mentions ''Compare Google and Microsoft revenue in 2024'' ''MSFT''
   \<and> dq_query_type (decompose_query ''Compare Google and Microsoft revenue in 2024'')
       = CROSS_COMPANY
   \<and> classify_query_type ''Who had the best margin'' [] [] = CROSS_COMPANY
   \<and> classify_query_type ''NVIDIA revenue 2022 to 2023'' [''NVDA''] [2022, 2023] = COMPARATIVE
   \<and> classify_query_type ''compute the percentage'' [] [] = CALCULATION
   \<and> classify_query_type ''Google cash 2022'' [''GOOGL''] [2022] = SIMPLE_DIRECT"
proof -
  have m: "mentions ''Compare Google and Microsoft revenue in 2024'' ''GOOGL''"
    "mentions ''Compare Google and Microsoft revenue in 2024'' ''MSFT''"
    by code_simp+
  have n: "''GOOGL'' \<noteq> ''MSFT''" by simp
  have k1: "has_comparison_keyword ''Who had the best margin''"
    by code_simp
  have k2: "\<not> has_comparison_keyword ''NVIDIA revenue 2022 to 2023''"
    by code_simp
  have k3: "\<not> has_comparison_keyword ''compute the percentage''"
    "\<not> has_temporal_keyword ''compute the percentage''"
    "has_calculation_keyword ''compute the percentage''"
    by code_simp+
  have k4: "\<not> has_comparison_keyword ''Google cash 2022''"
    "\<not> has_temporal_keyword ''Google cash 2022''"
    "\<not> has_calculation_keyword ''Google cash 2022''"
    by code_simp+
  show ?thesis
    using classify_query_type_precedence
            [of "[]" "''Compare Google and Microsoft revenue in 2024''" "[]" "''GOOGL''" "''MSFT''"]
      classify_query_type_precedence [of "[]" "''Who had the best margin''" "[]"]
      classify_query_type_precedence
            [of "[''NVDA'']" "''NVIDIA revenue 2022 to 2023''" "[2022, 2023]"]
      classify_query_type_precedence [of "[]" "''compute the percentage''" "[]"]
      classify_query_type_precedence [of "[''GOOGL'']" "''Google cash 2022''" "[2022]"]
      m n k1 k2 k3 k4
    by simp
qed

subsection \<open>Cross-company decomposition over the roster\<close>

text \<open>
  Claim C6, as the code has it. For a query classified CROSS\_COMPANY in which no tracked
  company is found, decomposition emits one SIMPLE\_DIRECT sub-query for each of GOOGL, MSFT,
  NVDA in this order, with text company, metric, year when a metric and a year were
  extracted and company followed by the original query otherwise, each tagged with the
  company, the first year and the first metric; then one CALCULATION sub-query whose text
  is "Compare", the metric, "across companies" when a metric was extracted and
  "Compare across companies" when none was; and \<^const>\<open>requires_calculation\<close> is true.
\<close>

theorem cross_company_roster_sub_queries:
  assumes "dq_query_type (decompose_query q) = CROSS_COMPANY" and "extract_companies q = []"
  shows "sub_queries (decompose_query q) =
           map (\<lambda>company.
                 \<lparr>sq_text = (case (first_or_none (extract_metrics q),
                                    first_or_none (extract_years q)) of
                               (Some m, Some y) \<Rightarrow> company @ '' '' @ m @ '' '' @ str_int y
                             | _ \<Rightarrow> company @ '' '' @ q),
                  sq_query_type = SIMPLE_DIRECT, sq_company = Some company,
                  sq_year = first_or_none (extract_years q),
                  sq_metric = first_or_none (extract_metrics q),
                  sq_section_hint = None\<rparr>) [''GOOGL'', ''MSFT'', ''NVDA'']
           @ [\<lparr>sq_text = (case first_or_none (extract_metrics q) of
                              Some m \<Rightarrow> ''Compare '' @ m @ '' across companies''
                            | None \<Rightarrow> ''Compare across companies''),
               sq_query_type = CALCULATION, sq_company = None, sq_year = None,
               sq_metric = first_or_none (extract_metrics q), sq_section_hint = None\<rparr>]
         \<and> requires_calculation (decompose_query q)"
proof -
  have ty: "truthy_str (first_or_none (extract_metrics q))
              = (first_or_none (extract_metrics q) \<noteq> None)"
    using extract_metrics_nonempty[of _ q] by (cases "extract_metrics q") auto
  have ti: "truthy_int (first_or_none (extract_years q))
              = (first_or_none (extract_years q) \<noteq> None)"
    using extract_years_range[of _ q] by (cases "extract_years q") force+
  have subs: "sub_queries (decompose_query q)
                = decompose_cross_company_query q [] (extract_years q) (extract_metrics q)"
    using assms by (simp add: decompose_query_subs decompose_query_type Let_def)
  show ?thesis
    using assms(1)
    by (auto simp: subs decompose_cross_company_query_def Let_def roster_def ty ti
          decompose_query_requires split: option.splits)
qed

theorem cross_company_roster_sub_queries_witness:
  "dq_query_type
     (decompose_query ''Which company had the highest operating margin in 2023?'')
     = CROSS_COMPANY
   \<and> extract_companies ''Which company had the highest operating margin in 2023?'' = []
   \<and> map (\<lambda>s. (sq_text s, sq_query_type s, sq_company s, sq_year s, sq_metric s))
        (sub_queries
           (decompose_query ''Which company had the highest operating margin in 2023?''))
       = [(''GOOGL operating_margin 2023'', SIMPLE_DIRECT, Some ''GOOGL'', Some 2023,
             Some ''operating_margin''),
          (''MSFT operating_margin 2023'', SIMPLE_DIRECT, Some ''MSFT'', Some 2023,
             Some ''operating_margin''),
          (''NVDA operating_margin 2023'', SIMPLE_DIRECT, Some ''NVDA'', Some 2023,
             Some ''operating_margin''),
          (''Compare operating_margin across companies'', CALCULATION, None, None,
             Some ''operating_margin'')]
   \<and> requires_calculation
        (decompose_query ''Which company had the highest operating margin in 2023?'')"
proof -
  have a: "dq_query_type
             (decompose_query ''Which company had the highest operating margin in 2023?'')
           = CROSS_COMPANY"
    by code_simp
  have b: "extract_companies ''Which company had the highest operating margin in 2023?'' = []"
    by code_simp
  have c: "extract_metrics ''Which company had the highest operating margin in 2023?''
           = [''operating_margin'']"
    by code_simp
  have d: "extract_years ''Which company had the highest operating margin in 2023?'' = [2023]"
    by code_simp
  have e: "str_int 2023 = ''2023''"
    by (simp add: str_int_def str_nat.simps digit_char_def)
  show ?thesis
    using cross_company_roster_sub_queries [OF a b] a b
    by (simp add: c d e)
qed

text \<open>
  The claim as stated fails where no metric is found: the comparison sub-query then reads
  "Compare across companies", with no metric in it.
\<close>

theorem cross_company_no_metric_counterexample:
  "dq_query_type (decompose_query ''which company is best'') = CROSS_COMPANY
   \<and> extract_companies ''which company is best'' = []
   \<and> extract_metrics ''which company is best'' = []
   \<and> map sq_text (sub_queries (decompose_query ''which company is best''))
       = [''GOOGL which company is best'', ''MSFT which company is best'',
          ''NVDA which company is best'', ''Compare across companies'']"
  by code_simp

section \<open>Properties of numeric fact extraction\<close>

lemma digit_not_punct: "is_digit c \<Longrightarrow> c \<noteq> CHR '','' \<and> c \<noteq> CHR ''.''"
  by (auto simp: is_digit_def)

lemma convert_to_base_units_eq: "convert_to_base_units v u = scaled v (unit_multiplier u)"
proof (cases u)
  case None
  then show ?thesis by (simp add: convert_to_base_units_def scaled_def)
next
  case (Some t)
  show ?thesis
  proof (cases "t = []")
    case True
    then show ?thesis using Some by (simp add: convert_to_base_units_def scaled_def lower_def)
  next
    case False
    then show ?thesis using Some by (simp add: convert_to_base_units_def scaled_def Let_def)
  qed
qed

lemma comma_groups_digits:
  "list_all is_digit (filter (\<lambda>c. c \<noteq> CHR '','') (comma_groups s))"
  by (induction s rule: comma_groups.induct) (auto dest: digit_not_punct)

lemma takeWhile_all: "list_all P (takeWhile P xs)"
  by (induction xs) auto

lemma fraction_part_shape:
  "fraction_part s = [] \<or>
   (\<exists>fd. fraction_part s = CHR ''.'' # fd \<and> fd \<noteq> [] \<and> list_all is_digit fd)"
  by (cases s rule: fraction_part.cases) (auto simp: takeWhile_all)

lemma filter_digits_id: "list_all is_digit xs \<Longrightarrow> filter (\<lambda>c. c \<noteq> CHR '','') xs = xs"
  by (induction xs) (auto dest: digit_not_punct)

lemma match_number_shape:
  assumes "match_number s = Some (g1, g2, n)"
  shows "number_shape g1"
proof -
  define d where "d = takeWhile is_digit (take 3 s)"
  define g where "g = comma_groups (drop (length d) s)"
  define f where "f = fraction_part (drop (length g) (drop (length d) s))"
  have dne: "d \<noteq> []" and g1: "g1 = d @ g @ f"
    using assms unfolding match_number_def d_def g_def f_def Let_def
    by (auto split: if_splits)
  have dd: "list_all is_digit d" by (simp add: d_def takeWhile_all)
  have fd: "filter (\<lambda>c. c \<noteq> CHR '','') d = d" using dd by (rule filter_digits_id)
  have gd: "list_all is_digit (filter (\<lambda>c. c \<noteq> CHR '','') g)"
    by (simp add: g_def comma_groups_digits)
  have fs: "f = [] \<or> (\<exists>fd. f = CHR ''.'' # fd \<and> fd \<noteq> [] \<and> list_all is_digit fd)"
    unfolding f_def by (rule fraction_part_shape)
  have ff: "filter (\<lambda>c. c \<noteq> CHR '','') f = f"
    using fs by (auto simp: filter_digits_id)
  have "filter (\<lambda>c. c \<noteq> CHR '','') g1 = (d @ filter (\<lambda>c. c \<noteq> CHR '','') g) @ f"
    by (simp add: g1 fd ff)
  moreover have "d @ filter (\<lambda>c. c \<noteq> CHR '','') g \<noteq> []" using dne by simp
  moreover have "list_all is_digit (d @ filter (\<lambda>c. c \<noteq> CHR '','') g)" using dd gd by simp
  ultimately show ?thesis unfolding number_shape_def using fs by blast
qed

lemma match_at_shape: "match_at s = Some (g1, g2, n) \<Longrightarrow> number_shape g1"
  by (auto simp: match_at_def split: if_splits dest: match_number_shape)

lemma finditer_from_shape:
  "m \<in> set (finditer_from pos s) \<Longrightarrow> number_shape (group1 m)"
proof (induction pos s rule: finditer_from.induct)
  case (1 pos)
  then show ?case by simp
next
  case (2 pos c cs)
  then show ?case
    by (cases "match_at (c # cs)") (auto dest: match_at_shape)
qed

lemma takeWhile_digits_append:
  "list_all is_digit a \<Longrightarrow> takeWhile is_digit (a @ CHR ''.'' # fd) = a"
  "list_all is_digit a \<Longrightarrow> dropWhile is_digit (a @ CHR ''.'' # fd) = CHR ''.'' # fd"
  by (induction a) (auto simp: is_digit_def)

lemma takeWhile_digits_all:
  "list_all is_digit a \<Longrightarrow> takeWhile is_digit a = a"
  "list_all is_digit a \<Longrightarrow> dropWhile is_digit a = []"
  by (induction a) auto

lemma takeWhile_nodot_append:
  "list_all is_digit a \<Longrightarrow> takeWhile (\<lambda>c. c \<noteq> CHR ''.'') (a @ CHR ''.'' # fd) = a"
  "list_all is_digit a \<Longrightarrow> dropWhile (\<lambda>c. c \<noteq> CHR ''.'') (a @ CHR ''.'' # fd) = CHR ''.'' # fd"
  by (induction a) (auto dest: digit_not_punct)

lemma takeWhile_nodot_all:
  "list_all is_digit a \<Longrightarrow> takeWhile (\<lambda>c. c \<noteq> CHR ''.'') a = a"
  "list_all is_digit a \<Longrightarrow> dropWhile (\<lambda>c. c \<noteq> CHR ''.'') a = []"
  by (induction a) (auto dest: digit_not_punct)

lemma float_of_str_shape:
  assumes "number_shape g"
  shows "float_of_str (filter (\<lambda>c. c \<noteq> CHR '','') g) = Some (decimal_float g)"
proof -
  obtain a f where gf: "filter (\<lambda>c. c \<noteq> CHR '','') g = a @ f" and ane: "a \<noteq> []"
    and ad: "list_all is_digit a"
    and fs: "f = [] \<or> (\<exists>fd. f = CHR ''.'' # fd \<and> fd \<noteq> [] \<and> list_all is_digit fd)"
    using assms unfolding number_shape_def by blast
  from fs show ?thesis
  proof
    assume "f = []"
    then show ?thesis using gf ane ad
      by (simp add: float_of_str_def decimal_float_def Let_def takeWhile_digits_all
            takeWhile_nodot_all)
  next
    assume "\<exists>fd. f = CHR ''.'' # fd \<and> fd \<noteq> [] \<and> list_all is_digit fd"
    then obtain fd where f: "f = CHR ''.'' # fd" and "fd \<noteq> []" and "list_all is_digit fd"
      by blast
    then show ?thesis using gf ane ad
      by (simp add: float_of_str_def decimal_float_def Let_def takeWhile_digits_append
            takeWhile_nodot_append)
  qed
qed

lemma number_of_match_value:
  assumes "number_shape (group1 m)"
  shows "\<exists>n. number_of_match text m = Some n
             \<and> n_value n = scaled (decimal_float (group1 m)) (unit_multiplier (group2 m))
             \<and> n_original_text n = group0 m \<and> n_unit n = group2 m"
  using float_of_str_shape[OF assms]
  by (simp add: number_of_match_def Let_def convert_to_base_units_eq)

lemma map_filter_all_some:
  assumes "\<And>x. x \<in> set xs \<Longrightarrow> \<exists>y. f x = Some y \<and> g y = h x"
  shows "map g (List.map_filter f xs) = map h xs"
  using assms
proof (induction xs)
  case Nil
  then show ?case by simp
next
  case (Cons x xs)
  then obtain y where "f x = Some y" "g y = h x" by auto
  with Cons show ?case by simp
qed

lemma starts_with_take: "starts_with s p \<Longrightarrow> take (length p) s = p"
  by (induction s p rule: starts_with.induct) auto

lemma find_SomeD: "find P xs = Some x \<Longrightarrow> x \<in> set xs \<and> P x"
  by (induction xs) (auto split: if_splits)

lemma match_unit_known:
  assumes "match_unit s = Some u"
  shows "known_unit u"
proof -
  obtain a where f: "find (\<lambda>u. starts_with (lower s) (lower u)) unit_alternatives = Some a"
    and u: "u = take (length a) s"
    using assms unfolding match_unit_def by auto
  have a: "a \<in> set unit_alternatives" "starts_with (lower s) (lower a)"
    using find_SomeD[OF f] by simp_all
  have "lower u = take (length (lower a)) (lower s)"
    by (simp add: u lower_def take_map)
  then have "lower u = lower a" using a(2) by (simp add: starts_with_take)
  moreover have "lower a \<in> set [''billion'', ''million'', ''thousand'', ''b'', ''m'', ''k'']"
    using a(1) by (auto simp: unit_alternatives_def lower_def lower_char_def)
  ultimately show ?thesis by (simp add: known_unit_def)
qed

lemma match_number_unit:
  "match_number s = Some (g1, Some u, n) \<Longrightarrow> known_unit u"
  unfolding match_number_def Let_def
  by (auto split: if_splits dest: match_unit_known)

lemma match_at_unit:
  "match_at s = Some (g1, Some u, n) \<Longrightarrow> known_unit u"
  unfolding match_at_def
  by (auto split: if_splits dest: match_number_unit)

lemma finditer_from_unit:
  "m \<in> set (finditer_from pos s) \<Longrightarrow> group2 m = Some u \<Longrightarrow> known_unit u"
proof (induction pos s rule: finditer_from.induct)
  case (1 pos)
  then show ?case by simp
next
  case (2 pos c cs)
  then show ?case
    by (cases "match_at (c # cs)") (auto dest: match_at_unit)
qed

lemma extract_numbers_normalized:
  "map (\<lambda>n. (n_value n, n_original_text n, n_unit n)) (extract_numbers_from_text text metric)
   = map (\<lambda>m. (scaled (decimal_float (group1 m)) (unit_multiplier (group2 m)),
                 group0 m, group2 m))
       (finditer text)"
  unfolding extract_numbers_from_text_def
proof (rule map_filter_all_some)
  fix m assume "m \<in> set (finditer text)"
  then have "number_shape (group1 m)" unfolding finditer_def by (rule finditer_from_shape)
  from number_of_match_value[OF this, of "text"]
  show "\<exists>y. number_of_match text m = Some y \<and>
            (n_value y, n_original_text y, n_unit y) =
            (scaled (decimal_float (group1 m)) (unit_multiplier (group2 m)), group0 m, group2 m)"
    by auto
qed

lemma extract_billion:
  "extract_numbers_from_text ''$198.3 billion'' metric =
     [\<lparr>n_value = Float 6497894400000000 (- 15), n_original_text = ''$198.3 billion'',
       n_context = ''$198.3 billion'', n_unit = Some ''billion''\<rparr>]"
  by code_simp

lemma extract_million:
  "extract_numbers_from_text ''2,500 million'' metric =
     [\<lparr>n_value = Float 5242880000000000 (- 21), n_original_text = ''2,500 million'',
       n_context = ''2,500 million'', n_unit = Some ''million''\<rparr>]"
  by code_simp

lemma extract_garbage:
  "extract_numbers_from_text ''garbage123abc'' metric =
     [\<lparr>n_value = Float 8655355533852672 (- 46), n_original_text = ''123'',
       n_context = ''garbage123abc'', n_unit = None\<rparr>]"
  by code_simp

lemma extract_no_break_space:
  "extract_numbers_from_text [CHR ''7'', CHR 0xA0, CHR ''M''] metric =
     [\<lparr>n_value = Float 7516192768000000 (- 30),
       n_original_text = [CHR ''7'', CHR 0xA0, CHR ''M''],
       n_context = [CHR ''7'', CHR 0xA0, CHR ''M''], n_unit = Some ''M''\<rparr>]"
  by code_simp

lemma extract_rounded:
  "extract_numbers_from_text ''$4.1 billion'' metric =
     [\<lparr>n_value = Float 8598323199999999 (- 21), n_original_text = ''$4.1 billion'',
       n_context = ''$4.1 billion'', n_unit = Some ''billion''\<rparr>]"
  by code_simp

text \<open>
  Claim C2, as the code has it. Every match of the pattern yields one extracted number (none
  is skipped); its value is the double nearest to the decimal number of the matched digits,
  multiplied as a double by the scale of the matched unit token, which is one of billion,
  million, thousand, B, M, K in any case (no multiplication without a unit), and it records
  the matched text and the unit. On \<^verbatim>\<open>"$198.3 billion"\<close> the result is the single value
  198300000000 with unit billion, on \<^verbatim>\<open>"2,500 million"\<close> the single value 2500000000,
  and on \<^verbatim>\<open>"garbage123abc"\<close> the single value 123 without a unit, matched at the digits
  "123".
\<close>

theorem extract_numbers_unit_normalization:
  "map (\<lambda>n. (n_value n, n_original_text n, n_unit n)) (extract_numbers_from_text text metric)
     = map (\<lambda>m. (scaled (decimal_float (group1 m)) (unit_multiplier (group2 m)),
                   group0 m, group2 m))
         (finditer text)
   \<and> (\<forall>m \<in> set (finditer text). \<forall>u. group2 m = Some u \<longrightarrow> known_unit u)
   \<and> map (\<lambda>n. (float_value (n_value n), n_original_text n, n_context n, n_unit n))
        (extract_numbers_from_text ''$198.3 billion'' metric)
     = [(Some 198300000000, ''$198.3 billion'', ''$198.3 billion'', Some ''billion'')]
   \<and> map (\<lambda>n. (float_value (n_value n), n_original_text n, n_context n, n_unit n))
        (extract_numbers_from_text ''2,500 million'' metric)
     = [(Some 2500000000, ''2,500 million'', ''2,500 million'', Some ''million'')]
   \<and> map (\<lambda>n. (float_value (n_value n), n_original_text n, n_context n, n_unit n))
        (extract_numbers_from_text ''garbage123abc'' metric)
     = [(Some 123, ''123'', ''garbage123abc'', None)]"
  using extract_numbers_normalized [of "text" metric] finditer_from_unit [of _ 0 "text"]
  by (simp add: extract_billion extract_million extract_garbage finditer_def)

theorem extract_numbers_unit_normalization_witness:
  "map (\<lambda>n. (n_value n, n_original_text n, n_unit n))
     (extract_numbers_from_text ''Sales of $1,234.5 M and 7 K'' None)
     = [(Float 5177868288000000 (- 22), ''$1,234.5 M'', Some ''M''),
        (Float 7696581394432000 (- 40), ''7 K'', Some ''K'')]
   \<and> float_value (Float 5177868288000000 (- 22)) = Some 1234500000
   \<and> float_value (Float 7696581394432000 (- 40)) = Some 7000
   \<and> map (\<lambda>n. float_value (n_value n))
        (extract_numbers_from_text ''$198.3 billion'' (Some ''revenue''))
     = [Some 198300000000]
   \<and> map (\<lambda>n. (float_value (n_value n), n_unit n))
        (extract_numbers_from_text ''$4.1 billion'' None)
     = [(Some (8598323199999999 / 2097152), Some ''billion'')]
   \<and> map (\<lambda>n. (float_value (n_value n), n_unit n))
        (extract_numbers_from_text [CHR ''7'', CHR 0xA0, CHR ''M''] None)
     = [(Some 7000000, Some ''M'')]"
proof -
  have f: "finditer ''Sales of $1,234.5 M and 7 K'' =
     [\<lparr>m_start = 9, m_end = 19, group0 = ''$1,234.5 M'', group1 = ''1,234.5'',
       group2 = Some ''M''\<rparr>,
      \<lparr>m_start = 24, m_end = 27, group0 = ''7 K'', group1 = ''7'', group2 = Some ''K''\<rparr>]"
    by code_simp
  have d: "scaled (decimal_float ''1,234.5'') 1000000 = Float 5177868288000000 (- 22)"
    "scaled (decimal_float ''7'') 1000 = Float 7696581394432000 (- 40)"
    by code_simp+
  have c1: "map (\<lambda>n. (n_value n, n_original_text n, n_unit n))
              (extract_numbers_from_text ''Sales of $1,234.5 M and 7 K'' None)
            = [(Float 5177868288000000 (- 22), ''$1,234.5 M'', Some ''M''),
               (Float 7696581394432000 (- 40), ''7 K'', Some ''K'')]"
    using extract_numbers_unit_normalization [of "''Sales of $1,234.5 M and 7 K''" None]
    by (simp add: f d lower_def lower_char_def)
  have c2: "float_value (Float 5177868288000000 (- 22)) = Some 1234500000"
    "float_value (Float 7696581394432000 (- 40)) = Some 7000"
    by simp_all
  have c3: "map (\<lambda>n. float_value (n_value n))
              (extract_numbers_from_text ''$198.3 billion'' (Some ''revenue''))
            = [Some 198300000000]"
    by (simp add: extract_billion)
  have c4: "map (\<lambda>n. (float_value (n_value n), n_unit n))
              (extract_numbers_from_text ''$4.1 billion'' None)
            = [(Some (8598323199999999 / 2097152), Some ''billion'')]"
    by (simp add: extract_rounded)
  have c5: "map (\<lambda>n. (float_value (n_value n), n_unit n))
              (extract_numbers_from_text [CHR ''7'', CHR 0xA0, CHR ''M''] None)
            = [(Some 7000000, Some ''M'')]"
    by (simp add: extract_no_break_space)
  show ?thesis
    using c1 c2 c3 c4 c5 by blast
qed

text \<open>
  The claim as stated fails on its third input: the pattern is not anchored at a word
  boundary, so the digits inside \<^verbatim>\<open>"garbage123abc"\<close> are extracted.
\<close>

theorem extract_numbers_garbage_counterexample:
  "map n_original_text (extract_numbers_from_text ''garbage123abc'' None) = [''123'']
   \<and> map n_unit (extract_numbers_from_text ''garbage123abc'' None) = [None]"
  by (simp add: extract_garbage)

section \<open>Properties of context synthesis\<close>

lemma chunk_id_tag [simp]: "chunk_id (tag_chunk c t) = chunk_id c"
  by (simp add: tag_chunk_def)

lemma score_tag [simp]: "score (tag_chunk c t) = score c"
  by (simp add: tag_chunk_def)

lemma collect_chunk_step: "collect_chunk t = (\<lambda>c. collect_step (tag_chunk c t))"
  by (intro ext) (simp add: collect_chunk_def collect_step_def split: prod.splits)

lemma fold_collect_flat:
  "fold (\<lambda>result. fold (collect_chunk (sq_text (rr_sub_query result))) (retrieved_chunks result)) rs st
   = fold collect_step (flat_tagged rs) st"
proof (induction rs arbitrary: st)
  case Nil
  then show ?case by (simp add: flat_tagged_def)
next
  case (Cons r rs)
  have "fold (collect_chunk (sq_text (rr_sub_query r))) (retrieved_chunks r) st
        = fold collect_step (map (\<lambda>c. tag_chunk c (sq_text (rr_sub_query r))) (retrieved_chunks r)) st"
    by (simp add: fold_map collect_chunk_step comp_def)
  then show ?case using Cons.IH by (simp add: flat_tagged_def)
qed

lemma fold_collect_step:
  "fst (fold collect_step xs (acc, seen))
   = acc @ first_occurrences (filter (\<lambda>x. chunk_id x \<notin> seen) xs)"
proof (induction xs arbitrary: acc seen)
  case Nil
  then show ?case by simp
next
  case (Cons x xs)
  show ?case
  proof (cases "chunk_id x \<in> seen")
    case True
    then show ?thesis using Cons.IH[of acc seen] by (simp add: collect_step_def)
  next
    case False
    have "filter (\<lambda>y. chunk_id y \<notin> insert (chunk_id x) seen) xs
          = filter (\<lambda>y. chunk_id y \<noteq> chunk_id x) (filter (\<lambda>y. chunk_id y \<notin> seen) xs)"
      by (induction xs) auto
    then show ?thesis using False Cons.IH[of "acc @ [x]" "insert (chunk_id x) seen"]
      by (simp add: collect_step_def)
  qed
qed

lemma collect_chunks_first_occurrences:
  "collect_chunks rs = first_occurrences (flat_tagged rs)"
  using fold_collect_step[of "flat_tagged rs" "[]" "{}"]
  by (simp add: collect_chunks_def fold_collect_flat)

lemma first_occurrences_subset: "set (first_occurrences xs) \<subseteq> set xs"
  by (induction xs rule: first_occurrences.induct) auto

lemma first_occurrences_ids: "chunk_id ` set (first_occurrences xs) = chunk_id ` set xs"
proof (induction xs rule: first_occurrences.induct)
  case 1
  then show ?case by simp
next
  case (2 x xs)
  have "chunk_id ` set (x # xs)
        = insert (chunk_id x) (chunk_id ` set (filter (\<lambda>y. chunk_id y \<noteq> chunk_id x) xs))"
    by auto
  then show ?case using "2.IH" by simp
qed

lemma first_occurrences_distinct: "distinct (map chunk_id (first_occurrences xs))"
proof (induction xs rule: first_occurrences.induct)
  case 1
  then show ?case by simp
next
  case (2 x xs)
  have "chunk_id x \<notin> chunk_id ` set (first_occurrences (filter (\<lambda>y. chunk_id y \<noteq> chunk_id x) xs))"
    unfolding first_occurrences_ids by auto
  then show ?case using "2.IH" by simp
qed

lemma find_filter_imp:
  "(\<And>y. P y \<Longrightarrow> Q y) \<Longrightarrow> find P (filter Q xs) = find P xs"
  by (induction xs) auto

lemma first_occurrences_first:
  "t \<in> set (first_occurrences xs) \<Longrightarrow> find (\<lambda>y. chunk_id y = chunk_id t) xs = Some t"
proof (induction xs rule: first_occurrences.induct)
  case 1
  then show ?case by simp
next
  case (2 x xs)
  show ?case
  proof (cases "t = x")
    case True
    then show ?thesis by simp
  next
    case False
    then have mem: "t \<in> set (first_occurrences (filter (\<lambda>y. chunk_id y \<noteq> chunk_id x) xs))"
      using "2.prems" by simp
    then have "t \<in> set (filter (\<lambda>y. chunk_id y \<noteq> chunk_id x) xs)"
      using first_occurrences_subset by blast
    then have ne: "chunk_id t \<noteq> chunk_id x" by simp
    have "find (\<lambda>y. chunk_id y = chunk_id t) (filter (\<lambda>y. chunk_id y \<noteq> chunk_id x) xs) = Some t"
      using "2.IH" mem by simp
    moreover have "find (\<lambda>y. chunk_id y = chunk_id t) (filter (\<lambda>y. chunk_id y \<noteq> chunk_id x) xs)
                   = find (\<lambda>y. chunk_id y = chunk_id t) xs"
      using ne by (intro find_filter_imp) auto
    ultimately show ?thesis using ne by simp
  qed
qed

lemma first_occurrences_id:
  "distinct (map chunk_id xs) \<Longrightarrow> first_occurrences xs = xs"
proof (induction xs)
  case Nil
  then show ?case by simp
next
  case (Cons x xs)
  from Cons.prems have "chunk_id x \<notin> chunk_id ` set xs" by simp
  then have "\<forall>y \<in> set xs. chunk_id y \<noteq> chunk_id x" by (metis imageI)
  then have "filter (\<lambda>y. chunk_id y \<noteq> chunk_id x) xs = xs" by simp
  then show ?case using Cons by simp
qed

lemma ranked_sorted: "sorted_wrt (\<lambda>a b. score a \<ge> score b) (ranked_chunks rs)"
proof -
  have "sorted (map (\<lambda>c. - score c) (ranked_chunks rs))"
    unfolding ranked_chunks_def by (rule sorted_sort_key)
  then show ?thesis by (simp add: sorted_map)
qed

lemma ranked_stable:
  "filter (\<lambda>c. score c = s) (ranked_chunks rs) = filter (\<lambda>c. score c = s) (collect_chunks rs)"
  using sort_key_stable[of "\<lambda>c. - score c" "- s" "collect_chunks rs"]
  by (simp add: ranked_chunks_def)

lemma rendered_length: "length (rendered_entries rs) = min 10 (length (ranked_chunks rs))"
  by (simp add: rendered_entries_def min.commute)

lemma context_parts_length:
  "length (context_parts rs dq) = 3 + 5 * min 10 (length (ranked_chunks rs))"
proof -
  have "length (concat (map render_entry xs)) = 5 * length xs" for xs
    by (induction xs) (auto simp: render_entry_def split: prod.splits)
  then show ?thesis
    by (simp add: context_parts_def rendered_entries_def min.commute)
qed

lemma ranked_distinct: "distinct (map chunk_id (ranked_chunks rs))"
  using first_occurrences_distinct[of "flat_tagged rs"]
  by (simp add: distinct_map ranked_chunks_def collect_chunks_first_occurrences)

text \<open>
  Claim C7, as the code has it. The ranked chunk list holds each chunk id once; its ids are
  those of all retrieved chunks; each of its chunks is the first retrieved chunk with that
  id, tagged with the sub-query that retrieved it; scores descend from one chunk to the
  next, without being strictly descending: chunks of equal score keep the order of their
  first occurrences. The rendered context has one entry for each of the first ten ranked
  chunks, hence at most ten entries, of five lines each behind three header lines.
\<close>

theorem synthesize_context_dedup_rank_bound:
  "distinct (map chunk_id (ranked_chunks rs))
   \<and> chunk_id ` set (ranked_chunks rs) = chunk_id ` set (flat_tagged rs)
   \<and> (\<forall>t \<in> set (ranked_chunks rs).
         find (\<lambda>x. chunk_id x = chunk_id t) (flat_tagged rs) = Some t)
   \<and> sorted_wrt (\<lambda>a b. score a \<ge> score b) (ranked_chunks rs)
   \<and> (\<forall>s. filter (\<lambda>c. score c = s) (ranked_chunks rs)
           = filter (\<lambda>c. score c = s) (first_occurrences (flat_tagged rs)))
   \<and> rendered_entries rs = map render_entry (enumerate 0 (take 10 (ranked_chunks rs)))
   \<and> length (rendered_entries rs) \<le> 10
   \<and> length (context_parts rs dq) = 3 + 5 * min 10 (length (ranked_chunks rs))"
proof -
  have set_eq: "set (ranked_chunks rs) = set (first_occurrences (flat_tagged rs))"
    by (simp add: ranked_chunks_def collect_chunks_first_occurrences)
  have "distinct (map chunk_id (ranked_chunks rs))"
    using first_occurrences_distinct[of "flat_tagged rs"]
    by (simp add: distinct_map ranked_chunks_def collect_chunks_first_occurrences)
  moreover have "chunk_id ` set (ranked_chunks rs) = chunk_id ` set (flat_tagged rs)"
    by (simp add: set_eq first_occurrences_ids)
  moreover have "\<forall>t \<in> set (ranked_chunks rs).
         find (\<lambda>x. chunk_id x = chunk_id t) (flat_tagged rs) = Some t"
    by (simp add: set_eq first_occurrences_first)
  moreover note ranked_sorted[of rs]
  moreover have "\<forall>s. filter (\<lambda>c. score c = s) (ranked_chunks rs)
           = filter (\<lambda>c. score c = s) (first_occurrences (flat_tagged rs))"
    by (simp add: ranked_stable collect_chunks_first_occurrences)
  moreover have "rendered_entries rs = map render_entry (enumerate 0 (take 10 (ranked_chunks rs)))"
    by (simp add: rendered_entries_def)
  moreover have "length (rendered_entries rs) \<le> 10" by (simp add: rendered_length)
  moreover note context_parts_length[of rs dq]
  ultimately show ?thesis by blast
qed

lemma sample_scores_ranked:
  "map score (ranked_chunks (sample_results [1 / 5, 9 / 10, 1 / 2])) = [9 / 10, 1 / 2, 1 / 5]"
  by (simp add: ranked_chunks_def collect_chunks_def collect_chunk_def sample_results_def
        sample_chunk_def sample_sub_query_def tag_chunk_def enumerate_eq_zip
        str_nat.simps digit_char_def upt_rec)

theorem synthesize_context_dedup_rank_bound_witness:
  "map score (ranked_chunks (sample_results [1 / 5, 9 / 10, 1 / 2])) = [9 / 10, 1 / 2, 1 / 5]
   \<and> distinct (map chunk_id (ranked_chunks (sample_results [1 / 5, 9 / 10, 1 / 2])))
   \<and> length (rendered_entries (sample_results [1 / 5, 9 / 10, 1 / 2])) \<le> 10
   \<and> length (context_parts (sample_results [1 / 5, 9 / 10, 1 / 2])
                (decompose_query ''Microsoft revenue 2023'')) = 18"
proof -
  have "length (ranked_chunks (sample_results [1 / 5, 9 / 10, 1 / 2])) = 3"
    using sample_scores_ranked by (metis length_map length_Cons list.size(3) numeral_3_eq_3)
  then show ?thesis
    using synthesize_context_dedup_rank_bound
            [of "sample_results [1 / 5, 9 / 10, 1 / 2]" "decompose_query ''Microsoft revenue 2023''"]
      sample_scores_ranked
    by simp
qed

text \<open>
  The claim as stated fails on ties: two different chunks of equal score are both kept, and
  the ranked scores are then not strictly descending.
\<close>

theorem ranked_chunks_ties_counterexample:
  "map score (ranked_chunks (sample_results [1 / 2, 1 / 2])) = [1 / 2, 1 / 2]
   \<and> map chunk_id (ranked_chunks (sample_results [1 / 2, 1 / 2])) = [''0'', ''1'']"
  by (simp add: ranked_chunks_def collect_chunks_def collect_chunk_def sample_results_def
        sample_chunk_def sample_sub_query_def tag_chunk_def enumerate_eq_zip
        str_nat.simps digit_char_def upt_rec)

lemma untag_tag [simp]: "untag_chunk (tag_chunk c t) = c"
  by (simp add: untag_chunk_def tag_chunk_def)

lemma score_untag [simp]: "score (untag_chunk t) = score t"
  by (simp add: untag_chunk_def)

lemma chunk_id_untag [simp]: "chunk_id (untag_chunk t) = chunk_id t"
  by (simp add: untag_chunk_def)

lemma ranked_idempotent:
  "map untag_chunk (ranked_chunks [\<lparr>rr_sub_query = sq,
       retrieved_chunks = map untag_chunk (ranked_chunks rs), relevance_scores = scores\<rparr>])
   = map untag_chunk (ranked_chunks rs)"
proof -
  let ?R = "ranked_chunks rs"
  let ?xs = "map (\<lambda>c. tag_chunk c (sq_text sq)) (map untag_chunk ?R)"
  have d: "distinct (map chunk_id ?R)" by (rule ranked_distinct)
  have "map chunk_id ?xs = map chunk_id ?R" by (simp add: comp_def)
  then have "distinct (map chunk_id ?xs)" using d by metis
  then have fo: "first_occurrences ?xs = ?xs" by (rule first_occurrences_id)
  have "map (\<lambda>c. - score c) ?xs = map (\<lambda>c. - score c) ?R" by (simp add: comp_def)
  moreover have "sorted (map (\<lambda>c. - score c) ?R)"
    unfolding ranked_chunks_def by (rule sorted_sort_key)
  ultimately have "sorted (map (\<lambda>c. - score c) ?xs)" by metis
  then have "sort_key (\<lambda>c. - score c) ?xs = ?xs"
    by (rule sort_key_id_if_sorted)
  then have "ranked_chunks [\<lparr>rr_sub_query = sq,
       retrieved_chunks = map untag_chunk ?R, relevance_scores = scores\<rparr>] = ?xs"
    using fo by (simp add: ranked_chunks_def collect_chunks_first_occurrences flat_tagged_def)
  then show ?thesis by (simp add: comp_def)
qed

text \<open>
  Claim C8. A call of the synthesizer leaves the retrieval results as they were, so a second
  call on them returns the same text and the same ranked chunk list; and ranking is
  idempotent: feeding the ranked chunks back as one retrieval result yields the same chunks
  in the same order.
\<close>

theorem synthesize_context_idempotent:
  "(case synthesize_context_run rs dq of
      (out1, rs1) \<Rightarrow>
        (case synthesize_context_run rs1 dq of
           (out2, rs2) \<Rightarrow> out1 = out2 \<and> rs1 = rs \<and> rs2 = rs))
   \<and> map untag_chunk
        (ranked_chunks
           [\<lparr>rr_sub_query = sq, retrieved_chunks = map untag_chunk (ranked_chunks rs),
             relevance_scores = scores\<rparr>])
     = map untag_chunk (ranked_chunks rs)"
  by (simp add: synthesize_context_run_def ranked_idempotent)

theorem synthesize_context_idempotent_witness:
  "fst (synthesize_context_run
          (snd (synthesize_context_run (sample_results [1 / 5, 9 / 10, 1 / 2])
                  (decompose_query ''Microsoft revenue 2023'')))
          (decompose_query ''Microsoft revenue 2023''))
     = fst (synthesize_context_run (sample_results [1 / 5, 9 / 10, 1 / 2])
              (decompose_query ''Microsoft revenue 2023''))
   \<and> map score
        (ranked_chunks
           [\<lparr>rr_sub_query = sample_sub_query,
             retrieved_chunks =
               map untag_chunk (ranked_chunks (sample_results [1 / 5, 9 / 10, 1 / 2])),
             relevance_scores = []\<rparr>])
     = [9 / 10, 1 / 2, 1 / 5]"
proof -
  have "map score (map untag_chunk
          (ranked_chunks
             [\<lparr>rr_sub_query = sample_sub_query,
               retrieved_chunks =
                 map untag_chunk (ranked_chunks (sample_results [1 / 5, 9 / 10, 1 / 2])),
               relevance_scores = []\<rparr>]))
        = map score (map untag_chunk (ranked_chunks (sample_results [1 / 5, 9 / 10, 1 / 2])))"
    using synthesize_context_idempotent
            [of "sample_results [1 / 5, 9 / 10, 1 / 2]" "decompose_query ''Microsoft revenue 2023''"
                sample_sub_query "[]"]
    by simp
  then have "map score
        (ranked_chunks
           [\<lparr>rr_sub_query = sample_sub_query,
             retrieved_chunks =
               map untag_chunk (ranked_chunks (sample_results [1 / 5, 9 / 10, 1 / 2])),
             relevance_scores = []\<rparr>])
     = [9 / 10, 1 / 2, 1 / 5]"
    using sample_scores_ranked by (simp add: comp_def)
  then show ?thesis
    using synthesize_context_idempotent
            [of "sample_results [1 / 5, 9 / 10, 1 / 2]" "decompose_query ''Microsoft revenue 2023''"
                sample_sub_query "[]"]
    by (simp add: synthesize_context_run_def)
qed

section \<open>Properties of retrieval and of the pipeline\<close>

lemma generate_embeddings_total:
  assumes "\<And>message. console caps message = Inr ()"
  shows "\<exists>embs. generate_embeddings caps texts = Inr embs"
  by (cases "encode caps texts")
     (simp_all add: generate_embeddings_def try_except_def then_do_def and_then_def assms)

lemma similarity_search_total:
  assumes "\<And>message. console caps message = Inr ()"
  shows "\<exists>found. similarity_search caps q k cf yf sf = Inr found"
  by (cases "similarity_search_body caps q k cf yf sf")
     (simp_all add: similarity_search_def try_except_def then_do_def and_then_def assms)

lemma similarity_search_request_raises:
  assumes ok: "\<And>message. console caps message = Inr ()"
    and raises: "\<And>v. \<exists>e. client_search caps (search_request_of q k cf yf sf v) = Inl e"
  shows "similarity_search caps q k cf yf sf = Inr []"
proof -
  obtain embs where g: "generate_embeddings caps [q] = Inr embs"
    using generate_embeddings_total [OF ok] by blast
  show ?thesis
  proof (cases embs)
    case Nil
    then show ?thesis
      by (simp add: similarity_search_def similarity_search_body_def g and_then_def
            try_except_def then_do_def ok)
  next
    case (Cons v vs)
    obtain e where "client_search caps (search_request_of q k cf yf sf v) = Inl e"
      using raises by blast
    then show ?thesis using Cons
      by (simp add: similarity_search_def similarity_search_body_def g and_then_def
            try_except_def then_do_def ok)
  qed
qed

lemma similarity_search_client_empty:
  assumes ok: "\<And>message. console caps message = Inr ()"
    and empty: "\<And>request. client_search caps request = Inr []"
  shows "similarity_search caps q k cf yf sf = Inr []"
proof -
  obtain embs where g: "generate_embeddings caps [q] = Inr embs"
    using generate_embeddings_total [OF ok] by blast
  show ?thesis
    by (cases embs)
       (simp_all add: similarity_search_def similarity_search_body_def g and_then_def
          try_except_def then_do_def ok empty)
qed

lemma retrieve_for_sub_query_total:
  assumes "\<And>message. console caps message = Inr ()"
  shows "\<exists>found. retrieve_for_sub_query caps sq k
           = Inr \<lparr>rr_sub_query = sq, retrieved_chunks = found,
                  relevance_scores = map score found\<rparr>"
  using similarity_search_total [OF assms, of "sq_text sq" k "sq_company sq" "sq_year sq"
      "sq_section_hint sq"]
  by (auto simp: retrieve_for_sub_query_def and_then_def)

lemma retrieve_loop_total:
  assumes ok: "\<And>message. console caps message = Inr ()"
  shows "\<exists>rs. retrieve_loop caps sqs acc = Inr (acc @ rs)
              \<and> (\<forall>sq r. sq \<in> set sqs \<and> sq_query_type sq \<noteq> CALCULATION
                    \<and> retrieve_for_sub_query caps sq 5 = Inr r \<longrightarrow> r \<in> set rs)"
proof (induction sqs arbitrary: acc)
  case Nil
  then show ?case by simp
next
  case (Cons sq sqs)
  show ?case
  proof (cases "sq_query_type sq = CALCULATION")
    case True
    then show ?thesis using Cons.IH [of acc] by auto
  next
    case False
    obtain r where r: "retrieve_for_sub_query caps sq 5 = Inr r"
      using retrieve_for_sub_query_total [OF ok] by blast
    obtain rs where rs: "retrieve_loop caps sqs (acc @ [r]) = Inr ((acc @ [r]) @ rs)"
      and mem: "\<forall>sq r. sq \<in> set sqs \<and> sq_query_type sq \<noteq> CALCULATION
                  \<and> retrieve_for_sub_query caps sq 5 = Inr r \<longrightarrow> r \<in> set rs"
      using Cons.IH [of "acc @ [r]"] by blast
    have "retrieve_loop caps (sq # sqs) acc = Inr (acc @ (r # rs))"
      using False r rs by (simp add: then_do_def and_then_def ok)
    moreover have "\<forall>sq' r'. sq' \<in> set (sq # sqs) \<and> sq_query_type sq' \<noteq> CALCULATION
                  \<and> retrieve_for_sub_query caps sq' 5 = Inr r' \<longrightarrow> r' \<in> set (r # rs)"
      using mem r by auto
    ultimately show ?thesis by blast
  qed
qed

lemma process_query_total:
  assumes ok: "\<And>message. console caps message = Inr ()"
  shows "\<exists>cs. process_query caps q = Inr cs
              \<and> (\<forall>sq r. sq \<in> set (sub_queries (decompose_query q))
                    \<and> sq_query_type sq \<noteq> CALCULATION
                    \<and> retrieve_for_sub_query caps sq 5 = Inr r
                    \<longrightarrow> r \<in> set (retrieval_results cs))"
proof -
  obtain rs where rs: "retrieve_multi_step caps (decompose_query q) = Inr rs"
    and mem: "\<forall>sq r. sq \<in> set (sub_queries (decompose_query q))
                \<and> sq_query_type sq \<noteq> CALCULATION
                \<and> retrieve_for_sub_query caps sq 5 = Inr r \<longrightarrow> r \<in> set rs"
    unfolding retrieve_multi_step_def
    using retrieve_loop_total [OF ok, of "sub_queries (decompose_query q)" "[]"] by auto
  show ?thesis
    using rs mem by (simp add: process_query_def Let_def and_then_def then_do_def ok)
qed

lemma generate_final_answer_total:
  "\<exists>a. generate_final_answer caps cs = Inr a
       \<and> (\<forall>first rest. chat_create caps (chat_request_of cs) = Inr (first # rest)
             \<longrightarrow> a = first)
       \<and> (\<forall>e. chat_create caps (chat_request_of cs) = Inl e
             \<longrightarrow> a = Some (''Error generating answer: '' @ exn_message e))"
proof (cases "chat_create caps (chat_request_of cs)")
  case (Inl e)
  then show ?thesis by (simp add: generate_final_answer_def and_then_def try_except_def)
next
  case (Inr choices)
  then show ?thesis
    by (cases choices)
       (simp_all add: generate_final_answer_def and_then_def try_except_def index_error_def)
qed

lemma answer_query_generates:
  assumes ok: "\<And>message. console caps message = Inr ()"
    and cs: "process_query caps q = Inr cs"
  shows "answer_query (rag_assistant caps True) q = generate_final_answer caps cs"
proof -
  obtain a where "generate_final_answer caps cs = Inr a"
    using generate_final_answer_total by blast
  then show ?thesis
    by (simp add: answer_query_def rag_assistant_def multi_step_retriever_def cs ok
          then_do_def and_then_def try_except_def)
qed

text \<open>
  Claim C3, as the code has it. When the search client raises on the request of a sub-query
  (console output working), \<^const>\<open>similarity_search\<close> catches the exception and returns
  no chunks: the retrieval result of the sub-query is the one with an empty chunk list, the
  same as when the search finds nothing. For a query whose decomposition holds that
  sub-query, \<^const>\<open>process_query\<close> still returns its context synthesis, with the empty
  result among its retrieval results, and \<^const>\<open>answer_query\<close> returns what
  \<^const>\<open>generate_final_answer\<close> makes of it: the content of the first completion choice
  when the chat client answers. Nothing is propagated and no stage is named.
\<close>

theorem search_failure_is_empty_result:
  assumes "\<And>message. console caps message = Inr ()"
    and "\<And>v. \<exists>e. client_search caps
                       (search_request_of (sq_text sq) top_k (sq_company sq) (sq_year sq)
                          (sq_section_hint sq) v) = Inl e"
  shows "retrieve_for_sub_query caps sq top_k
           = Inr \<lparr>rr_sub_query = sq, retrieved_chunks = [], relevance_scores = []\<rparr>
         \<and> retrieve_for_sub_query (caps\<lparr>client_search := \<lambda>request. Inr []\<rparr>) sq top_k
           = Inr \<lparr>rr_sub_query = sq, retrieved_chunks = [], relevance_scores = []\<rparr>
         \<and> (top_k = 5 \<and> sq \<in> set (sub_queries (decompose_query q))
              \<and> sq_query_type sq \<noteq> CALCULATION
            \<longrightarrow> (\<exists>cs. process_query caps q = Inr cs
                   \<and> \<lparr>rr_sub_query = sq, retrieved_chunks = [], relevance_scores = []\<rparr>
                       \<in> set (retrieval_results cs)
                   \<and> answer_query (rag_assistant caps True) q = generate_final_answer caps cs
                   \<and> (\<forall>first rest.
                         chat_create caps (chat_request_of cs) = Inr (first # rest)
                         \<longrightarrow> answer_query (rag_assistant caps True) q = Inr first)))"
proof -
  have a: "retrieve_for_sub_query caps sq top_k
           = Inr \<lparr>rr_sub_query = sq, retrieved_chunks = [], relevance_scores = []\<rparr>"
    using similarity_search_request_raises [OF assms]
    by (simp add: retrieve_for_sub_query_def and_then_def)
  have b: "retrieve_for_sub_query (caps\<lparr>client_search := \<lambda>request. Inr []\<rparr>) sq top_k
           = Inr \<lparr>rr_sub_query = sq, retrieved_chunks = [], relevance_scores = []\<rparr>"
    using similarity_search_client_empty [of "caps\<lparr>client_search := \<lambda>request. Inr []\<rparr>"]
      assms(1)
    by (simp add: retrieve_for_sub_query_def and_then_def)
  have c: "\<exists>cs. process_query caps q = Inr cs
             \<and> \<lparr>rr_sub_query = sq, retrieved_chunks = [], relevance_scores = []\<rparr>
                 \<in> set (retrieval_results cs)
             \<and> answer_query (rag_assistant caps True) q = generate_final_answer caps cs
             \<and> (\<forall>first rest.
                   chat_create caps (chat_request_of cs) = Inr (first # rest)
                   \<longrightarrow> answer_query (rag_assistant caps True) q = Inr first)"
    if t: "top_k = 5" and m: "sq \<in> set (sub_queries (decompose_query q))"
      and n: "sq_query_type sq \<noteq> CALCULATION"
  proof -
    obtain cs where cs: "process_query caps q = Inr cs"
      and mem: "\<forall>sq r. sq \<in> set (sub_queries (decompose_query q))
                  \<and> sq_query_type sq \<noteq> CALCULATION
                  \<and> retrieve_for_sub_query caps sq 5 = Inr r
                  \<longrightarrow> r \<in> set (retrieval_results cs)"
      using process_query_total [OF assms(1)] by blast
    have r: "\<lparr>rr_sub_query = sq, retrieved_chunks = [], relevance_scores = []\<rparr>
             \<in> set (retrieval_results cs)"
      using mem m n a t by blast
    have g: "answer_query (rag_assistant caps True) q = generate_final_answer caps cs"
      using answer_query_generates [OF assms(1) cs] .
    have "\<forall>first rest. chat_create caps (chat_request_of cs) = Inr (first # rest)
            \<longrightarrow> answer_query (rag_assistant caps True) q = Inr first"
      using generate_final_answer_total [of caps cs] g by auto
    then show ?thesis using cs r g by blast
  qed
  show ?thesis using a b c by blast
qed

theorem search_failure_is_empty_result_witness:
  "retrieve_for_sub_query partly_failing_search_caps nvidia_sub_query 5
     = Inr \<lparr>rr_sub_query = nvidia_sub_query, retrieved_chunks = [], relevance_scores = []\<rparr>
   \<and> (\<exists>cs. process_query partly_failing_search_caps
               ''Which company had the highest operating margin in 2023?'' = Inr cs
          \<and> \<lparr>rr_sub_query = nvidia_sub_query, retrieved_chunks = [], relevance_scores = []\<rparr>
              \<in> set (retrieval_results cs)
          \<and> answer_query (rag_assistant partly_failing_search_caps True)
               ''Which company had the highest operating margin in 2023?''
            = Inr (Some ''Revenue was $198.3 billion.''))"
proof -
  have ok: "\<And>message. console partly_failing_search_caps message = Inr ()"
    by (simp add: partly_failing_search_caps_def working_caps_def)
  have raises: "\<And>v. \<exists>e. client_search partly_failing_search_caps
                   (search_request_of (sq_text nvidia_sub_query) 5 (sq_company nvidia_sub_query)
                      (sq_year nvidia_sub_query) (sq_section_hint nvidia_sub_query) v) = Inl e"
    by (simp add: partly_failing_search_caps_def nvidia_sub_query_def search_request_of_def
          build_filter_def)
  have m: "nvidia_sub_query
           \<in> set (sub_queries
                   (decompose_query ''Which company had the highest operating margin in 2023?''))"
    by code_simp
  have n: "sq_query_type nvidia_sub_query \<noteq> CALCULATION"
    by (simp add: nvidia_sub_query_def)
  have chat: "chat_create partly_failing_search_caps request
              = Inr [Some ''Revenue was $198.3 billion.'']" for request
    by (simp add: partly_failing_search_caps_def working_caps_def)
  show ?thesis
    using search_failure_is_empty_result [OF ok raises,
        of "''Which company had the highest operating margin in 2023?''"] m n chat
    by auto
qed

text \<open>
  The claim as stated fails: with a search client that raises on every request, the
  retrieval result equals the one of an empty search, and the query is answered with the
  generated text instead of an error.
\<close>

theorem search_failure_not_propagated:
  "retrieve_for_sub_query failing_search_caps sample_sub_query 5
     = Inr \<lparr>rr_sub_query = sample_sub_query, retrieved_chunks = [], relevance_scores = []\<rparr>
   \<and> retrieve_for_sub_query empty_search_caps sample_sub_query 5
     = Inr \<lparr>rr_sub_query = sample_sub_query, retrieved_chunks = [], relevance_scores = []\<rparr>
   \<and> answer_query (rag_assistant failing_search_caps True) ''Microsoft revenue 2023''
     = Inr (Some ''Revenue was $198.3 billion.'')"
proof -
  have ok1: "\<And>message. console failing_search_caps message = Inr ()"
    by (simp add: failing_search_caps_def working_caps_def)
  have ok2: "\<And>message. console empty_search_caps message = Inr ()"
    by (simp add: empty_search_caps_def working_caps_def)
  have a: "similarity_search failing_search_caps q k cf yf sf = Inr []" for q k cf yf sf
    by (rule similarity_search_request_raises [OF ok1]) (simp add: failing_search_caps_def)
  have b: "similarity_search empty_search_caps q k cf yf sf = Inr []" for q k cf yf sf
    by (rule similarity_search_client_empty [OF ok2]) (simp add: empty_search_caps_def)
  obtain cs where cs: "process_query failing_search_caps ''Microsoft revenue 2023'' = Inr cs"
    using process_query_total [OF ok1] by blast
  have g: "generate_final_answer failing_search_caps cs
           = Inr (Some ''Revenue was $198.3 billion.'')"
    by (simp add: generate_final_answer_def failing_search_caps_def working_caps_def
          and_then_def try_except_def)
  show ?thesis
    using answer_query_generates [OF ok1 cs]
    by (simp add: retrieve_for_sub_query_def a b and_then_def g)
qed

subsection \<open>The public entry point\<close>

text \<open>
  With a working console \<^const>\<open>answer_query\<close> raises nothing: it returns the
  initialization message, or what the retriever generates, which is the content of the first
  completion choice, a string or \<^verbatim>\<open>None\<close>, or a text starting with "Error generating
  answer: ".
\<close>

lemma answer_query_with_console:
  assumes ok: "\<And>message. console caps message = Inr ()"
  shows "answer_query (rag_assistant caps False) q = Inr (Some not_initialized_message)
         \<and> (\<exists>cs a. process_query caps q = Inr cs
                \<and> answer_query (rag_assistant caps True) q = Inr a
                \<and> (\<forall>first rest. chat_create caps (chat_request_of cs) = Inr (first # rest)
                      \<longrightarrow> a = first)
                \<and> (\<forall>e. chat_create caps (chat_request_of cs) = Inl e
                      \<longrightarrow> a = Some (''Error generating answer: '' @ exn_message e)))"
proof -
  have "answer_query (rag_assistant caps False) q = Inr (Some not_initialized_message)"
    by (simp add: answer_query_def rag_assistant_def try_except_def)
  moreover obtain cs where cs: "process_query caps q = Inr cs"
    using process_query_total [OF ok] by blast
  moreover note answer_query_generates [OF ok cs] generate_final_answer_total [of caps cs]
  ultimately show ?thesis by auto
qed

text \<open>
  Claim C9 asks that \<^const>\<open>answer_query\<close> always return a string and never raise. The code
  misses it twice. It returns the content of the first completion choice unchecked, so a
  choice without content makes it return \<^verbatim>\<open>None\<close>; and the \<^verbatim>\<open>print\<close> of its handler
  is outside any \<^verbatim>\<open>try\<close>, so on a console that raises the exception leaves
  \<^const>\<open>answer_query\<close>.
\<close>

theorem answer_query_none_and_raise:
  "answer_query (rag_assistant no_content_caps True) ''Microsoft revenue 2023'' = Inr None
   \<and> answer_query (rag_assistant failing_console_caps True) ''Microsoft revenue 2023''
     = Inl (PyException ''cannot encode character'')"
proof -
  have ok: "\<And>message. console no_content_caps message = Inr ()"
    by (simp add: no_content_caps_def working_caps_def)
  obtain cs where cs: "process_query no_content_caps ''Microsoft revenue 2023'' = Inr cs"
    using process_query_total [OF ok] by blast
  have g: "generate_final_answer no_content_caps cs = Inr None"
    by (simp add: generate_final_answer_def no_content_caps_def working_caps_def
          and_then_def try_except_def)
  have a: "answer_query (rag_assistant no_content_caps True) ''Microsoft revenue 2023''
           = Inr None"
    using answer_query_generates [OF ok cs] by (simp add: g)
  have b: "answer_query (rag_assistant failing_console_caps True) ''Microsoft revenue 2023''
           = Inl (PyException ''cannot encode character'')"
    by (simp add: answer_query_def rag_assistant_def failing_console_caps_def working_caps_def
          then_do_def and_then_def try_except_def)
  show ?thesis using a b by simp
qed

section \<open>Properties of the calculation data\<close>

lemma keys_extract_from_chunk:
  "fst ` set (extract_from_chunk key metric c d) = fst ` set d"
  by (simp add: extract_from_chunk_def Let_def dom_map_entry)

lemma keys_fold_chunks:
  "fst ` set (fold (extract_from_chunk key metric) cs d) = fst ` set d"
  by (induction cs arbitrary: d) (simp_all add: keys_extract_from_chunk)

lemma keys_extract_from_result:
  "fst ` set (extract_from_result r d)
   = fst ` set d \<union> (if has_company_and_year r then {data_key r} else {})"
  by (auto simp: extract_from_result_def Let_def has_company_and_year_def data_key_def
        keys_fold_chunks dom_map_entry)

lemma keys_fold_results:
  "fst ` set (fold extract_from_result rs d)
   = fst ` set d \<union> data_key ` {r \<in> set rs. has_company_and_year r}"
  by (induction rs arbitrary: d) (auto simp: keys_extract_from_result)

lemma extract_from_result_skip:
  "\<not> has_company_and_year r \<Longrightarrow> extract_from_result r d = d"
  by (auto simp: extract_from_result_def has_company_and_year_def Let_def)

text \<open>
  Claim C10. \<^const>\<open>extract_financial_data\<close> returns the empty mapping when the query
  does not require calculation. Otherwise its keys are exactly the keys company, underscore,
  year of the retrieval results whose sub-query has both a company and a year; a
  retrieval result whose sub-query lacks either of them, such as the single sub-query of a
  query without entities, contributes nothing: leaving it out does not change the data.
\<close>

theorem extract_financial_data_keys:
  "(\<not> requires_calculation dq \<longrightarrow> extract_financial_data rs dq = [])
   \<and> (requires_calculation dq \<longrightarrow>
        fst ` set (extract_financial_data rs dq)
          = data_key ` {r \<in> set rs. has_company_and_year r})
   \<and> (sq_company (rr_sub_query r) = None \<or> sq_year (rr_sub_query r) = None
        \<longrightarrow> \<not> has_company_and_year r)
   \<and> (\<not> has_company_and_year r \<longrightarrow>
        extract_financial_data (rs1 @ r # rs2) dq = extract_financial_data (rs1 @ rs2) dq)"
proof -
  have "sq_company (rr_sub_query r) = None \<or> sq_year (rr_sub_query r) = None
        \<longrightarrow> \<not> has_company_and_year r"
    by (auto simp: has_company_and_year_def)
  then show ?thesis
    using keys_fold_results[of rs "[]"]
    by (simp add: extract_financial_data_def extract_from_result_skip)
qed

theorem extract_financial_data_keys_witness:
  "extract_financial_data (sample_results [9 / 10])
     (decompose_query ''What was Microsoft revenue in 2023?'') = []
   \<and> fst ` set (extract_financial_data (sample_results [9 / 10] @ [sample_result_no_company])
                  (decompose_query ''Microsoft revenue growth''))
     = {''MSFT_2023''}
   \<and> extract_financial_data (sample_results [9 / 10] @ sample_result_no_company # [])
       (decompose_query ''Microsoft revenue growth'')
     = extract_financial_data (sample_results [9 / 10] @ [])
         (decompose_query ''Microsoft revenue growth'')"
proof -
  have a: "\<not> requires_calculation (decompose_query ''What was Microsoft revenue in 2023?'')"
    by code_simp
  have b: "requires_calculation (decompose_query ''Microsoft revenue growth'')"
    by code_simp
  have c: "\<not> has_company_and_year sample_result_no_company"
    by (simp add: has_company_and_year_def sample_result_no_company_def)
  have e: "str_int 2023 = ''2023''"
    by (simp add: str_int_def str_nat.simps digit_char_def)
  obtain r where sr: "sample_results [9 / 10] = [r]" and rq: "rr_sub_query r = sample_sub_query"
    by (simp add: sample_results_def enumerate_eq_zip)
  have h: "has_company_and_year r"
    by (simp add: has_company_and_year_def rq sample_sub_query_def)
  have k: "data_key r = ''MSFT_2023''"
    by (simp add: data_key_def rq sample_sub_query_def e)
  have "{x \<in> set (sample_results [9 / 10] @ [sample_result_no_company]).
           has_company_and_year x} = {r}"
    using c h by (auto simp: sr)
  then have d: "data_key ` {x \<in> set (sample_results [9 / 10] @ [sample_result_no_company]).
                              has_company_and_year x} = {''MSFT_2023''}"
    by (simp add: k)
  have t1: "extract_financial_data (sample_results [9 / 10])
              (decompose_query ''What was Microsoft revenue in 2023?'') = []"
    using extract_financial_data_keys
            [of "decompose_query ''What was Microsoft revenue in 2023?''"
                "sample_results [9 / 10]"] a
    by blast
  note t = extract_financial_data_keys
            [of "decompose_query ''Microsoft revenue growth''"
                "sample_results [9 / 10] @ [sample_result_no_company]"
                sample_result_no_company "sample_results [9 / 10]" "[]"]
  have t2: "fst ` set (extract_financial_data
                        (sample_results [9 / 10] @ [sample_result_no_company])
                        (decompose_query ''Microsoft revenue growth''))
            = {''MSFT_2023''}"
    using t b d by metis
  have t3: "extract_financial_data (sample_results [9 / 10] @ sample_result_no_company # [])
              (decompose_query ''Microsoft revenue growth'')
            = extract_financial_data (sample_results [9 / 10] @ [])
                (decompose_query ''Microsoft revenue growth'')"
    using t c by blast
  show ?thesis
    using t1 t2 t3 by blast
qed
end
